theory Spec2Isabelle
  imports Complex_Main "HOL-Library.AList" "HOL-Library.Log_Nat"
begin

section \<open>JavaScript values\<close>

text \<open>
  The engine is TypeScript running on JavaScript values. A number is modelled as
  \<open>jsnum\<close>: the three non-finite values of the language, written out, and the finite
  ones as exact reals. The operations of this section compute the finite part exactly;
  rounding to 64-bit binary floating point and the overflow of a finite result to
  infinity are modelled further down and applied in the correlation, whose result
  depends on them. The sign of zero is not modelled: every division below has a
  denominator that is a count, a length or a square root, so a zero denominator is a
  positive zero in the program as well.
\<close>

datatype jsnum = NaN | PInf | NInf | Fin real

fun isNaN :: "jsnum \<Rightarrow> bool" where
  "isNaN NaN = True"
| "isNaN _ = False"

fun isFinite :: "jsnum \<Rightarrow> bool" where
  "isFinite (Fin _) = True"
| "isFinite _ = False"

fun jneg :: "jsnum \<Rightarrow> jsnum" where
  "jneg NaN = NaN"
| "jneg PInf = NInf"
| "jneg NInf = PInf"
| "jneg (Fin a) = Fin (- a)"

text \<open>\<open>a + b\<close>: opposite infinities cancel to NaN.\<close>

fun jadd :: "jsnum \<Rightarrow> jsnum \<Rightarrow> jsnum" where
  "jadd (Fin a) (Fin b) = Fin (a + b)"
| "jadd NaN _ = NaN"
| "jadd _ NaN = NaN"
| "jadd PInf NInf = NaN"
| "jadd NInf PInf = NaN"
| "jadd PInf _ = PInf"
| "jadd _ PInf = PInf"
| "jadd NInf _ = NInf"
| "jadd _ NInf = NInf"

definition jsub :: "jsnum \<Rightarrow> jsnum \<Rightarrow> jsnum" where
  "jsub a b = jadd a (jneg b)"

text \<open>The sign of a number that is not NaN: \<open>-1\<close>, \<open>0\<close> or \<open>1\<close>.\<close>

fun jsign :: "jsnum \<Rightarrow> int" where
  "jsign NaN = 0"
| "jsign PInf = 1"
| "jsign NInf = - 1"
| "jsign (Fin a) = (if a < 0 then - 1 else if a = 0 then 0 else 1)"

definition infOfSign :: "int \<Rightarrow> jsnum" where
  "infOfSign sg = (if sg = 0 then NaN else if sg < 0 then NInf else PInf)"

text \<open>\<open>a * b\<close>: infinity times zero is NaN.\<close>

fun jmul :: "jsnum \<Rightarrow> jsnum \<Rightarrow> jsnum" where
  "jmul (Fin a) (Fin b) = Fin (a * b)"
| "jmul NaN _ = NaN"
| "jmul _ NaN = NaN"
| "jmul a b = infOfSign (jsign a * jsign b)"

text \<open>
  \<open>a / b\<close>: a finite number over zero is an infinity of its sign, and \<open>0 / 0\<close> and
  infinity over infinity are NaN. No division raises.
\<close>

fun jdiv :: "jsnum \<Rightarrow> jsnum \<Rightarrow> jsnum" where
  "jdiv NaN _ = NaN"
| "jdiv _ NaN = NaN"
| "jdiv (Fin a) (Fin b) = (if b = 0 then infOfSign (jsign (Fin a)) else Fin (a / b))"
| "jdiv (Fin a) _ = Fin 0"
| "jdiv a (Fin b) = infOfSign (jsign a * (if b < 0 then - 1 else 1))"
| "jdiv _ _ = NaN"

text \<open>Comparisons are false when an operand is NaN.\<close>

fun jless :: "jsnum \<Rightarrow> jsnum \<Rightarrow> bool" where
  "jless NaN _ = False"
| "jless _ NaN = False"
| "jless (Fin a) (Fin b) = (a < b)"
| "jless NInf NInf = False"
| "jless NInf _ = True"
| "jless _ NInf = False"
| "jless PInf _ = False"
| "jless _ PInf = True"

definition jgreater :: "jsnum \<Rightarrow> jsnum \<Rightarrow> bool" where
  "jgreater a b = jless b a"

fun jabs :: "jsnum \<Rightarrow> jsnum" where
  "jabs NaN = NaN"
| "jabs PInf = PInf"
| "jabs NInf = PInf"
| "jabs (Fin a) = Fin \<bar>a\<bar>"

fun jsqrt :: "jsnum \<Rightarrow> jsnum" where
  "jsqrt NaN = NaN"
| "jsqrt PInf = PInf"
| "jsqrt NInf = NaN"
| "jsqrt (Fin a) = (if a < 0 then NaN else Fin (sqrt a))"

text \<open>\<open>Math.min(a, b)\<close> and \<open>Math.max(a, b)\<close>: NaN when an operand is NaN.\<close>

definition jmin :: "jsnum \<Rightarrow> jsnum \<Rightarrow> jsnum" where
  "jmin a b = (if isNaN a \<or> isNaN b then NaN else if jless b a then b else a)"

definition jmax :: "jsnum \<Rightarrow> jsnum \<Rightarrow> jsnum" where
  "jmax a b = (if isNaN a \<or> isNaN b then NaN else if jless a b then b else a)"

text \<open>\<open>Math.round\<close>: the integer nearest to the argument, a tie going up.\<close>

fun jround :: "jsnum \<Rightarrow> jsnum" where
  "jround (Fin a) = Fin (of_int \<lfloor>a + 1 / 2\<rfloor>)"
| "jround a = a"

definition ofNat :: "nat \<Rightarrow> jsnum" where
  "ofNat n = Fin (of_nat n)"

subsection \<open>Rounding to doubles\<close>

text \<open>
  A double is zero or \<open>m * 2^e\<close> with an integer \<open>m\<close> below \<open>2^53\<close> in size and
  \<open>e\<close> from \<open>-1074\<close> on, below \<open>2^1024\<close> in size. \<open>binaryExponent x\<close> is the
  \<open>e\<close> with \<open>2^e \<le> x < 2^(e+1)\<close> of a positive \<open>x\<close>. \<open>toDouble\<close> rounds a real
  to the nearest double, a tie going to the even significand, and to an infinity from
  \<open>2^1024\<close> on; it is what every arithmetic operation of the language does to its
  exact result, and what \<open>Number\<close> does to the value of a numeric text.
\<close>

definition pow2 :: "int \<Rightarrow> real" where
  "pow2 e = (if 0 \<le> e then 2 ^ nat e else 1 / 2 ^ nat (- e))"

definition binaryExponent :: "real \<Rightarrow> int" where
  "binaryExponent x = (if 1 \<le> x then bitlen \<lfloor>x\<rfloor> - 1 else - bitlen (\<lceil>1 / x\<rceil> - 1))"

definition roundHalfEven :: "real \<Rightarrow> int" where
  "roundHalfEven r =
     (let f = \<lfloor>r\<rfloor>; d = r - of_int f in
      if d < 1 / 2 then f else if 1 / 2 < d then f + 1 else if even f then f else f + 1)"

definition toDouble :: "real \<Rightarrow> jsnum" where
  "toDouble x =
     (if x = 0 then Fin 0
      else
        let ulp = pow2 (max (binaryExponent \<bar>x\<bar> - 52) (- 1074));
            y = of_int (roundHalfEven (x / ulp)) * ulp
        in if pow2 1024 \<le> y then PInf else if y \<le> - pow2 1024 then NInf else Fin y)"

definition rounded :: "jsnum \<Rightarrow> jsnum" where
  "rounded a = (case a of Fin x \<Rightarrow> toDouble x | _ \<Rightarrow> a)"

text \<open>\<open>a + b\<close>, \<open>a - b\<close>, \<open>a * b\<close>, \<open>a / b\<close> and \<open>Math.sqrt(a)\<close> on doubles.\<close>

definition radd :: "jsnum \<Rightarrow> jsnum \<Rightarrow> jsnum" where
  "radd a b = rounded (jadd a b)"

definition rsub :: "jsnum \<Rightarrow> jsnum \<Rightarrow> jsnum" where
  "rsub a b = rounded (jsub a b)"

definition rmul :: "jsnum \<Rightarrow> jsnum \<Rightarrow> jsnum" where
  "rmul a b = rounded (jmul a b)"

definition rdiv :: "jsnum \<Rightarrow> jsnum \<Rightarrow> jsnum" where
  "rdiv a b = rounded (jdiv a b)"

definition rsqrt :: "jsnum \<Rightarrow> jsnum" where
  "rsqrt a = rounded (jsqrt a)"

text \<open>
  A cell holds a scalar: null, undefined (also what reading an absent key gives), a
  boolean, a number or a string. A string is a list of 8-bit characters, so the model
  covers the strings whose code units are below 256.
\<close>

datatype jsval = JNull | JUndefined | JBool bool | JNum jsnum | JStr string

subsection \<open>Strings and numbers\<close>

text \<open>White space and line terminators, as \<open>trim\<close> and \<open>Number\<close> skip them.\<close>

definition isWhiteSpace :: "char \<Rightarrow> bool" where
  "isWhiteSpace c = (c \<in> set [CHR 0x09, CHR 0x0A, CHR 0x0B, CHR 0x0C, CHR 0x0D, CHR 0x20, CHR 0xA0])"

definition trim :: "string \<Rightarrow> string" where
  "trim s = rev (dropWhile isWhiteSpace (rev (dropWhile isWhiteSpace s)))"

definition digitTable :: "(char \<times> nat) list" where
  "digitTable =
     [(CHR ''0'', 0), (CHR ''1'', 1), (CHR ''2'', 2), (CHR ''3'', 3), (CHR ''4'', 4),
      (CHR ''5'', 5), (CHR ''6'', 6), (CHR ''7'', 7), (CHR ''8'', 8), (CHR ''9'', 9),
      (CHR ''a'', 10), (CHR ''b'', 11), (CHR ''c'', 12), (CHR ''d'', 13), (CHR ''e'', 14),
      (CHR ''f'', 15), (CHR ''A'', 10), (CHR ''B'', 11), (CHR ''C'', 12), (CHR ''D'', 13),
      (CHR ''E'', 14), (CHR ''F'', 15)]"

definition digitOf :: "nat \<Rightarrow> char \<Rightarrow> nat option" where
  "digitOf base c =
     (case map_of digitTable c of
        None \<Rightarrow> None
      | Some d \<Rightarrow> if d < base then Some d else None)"

definition isDigit :: "nat \<Rightarrow> char \<Rightarrow> bool" where
  "isDigit base c = (digitOf base c \<noteq> None)"

text \<open>The value of a digit string, most significant digit first.\<close>

definition digitsVal :: "nat \<Rightarrow> string \<Rightarrow> nat" where
  "digitsVal base ds = foldl (\<lambda>acc c. acc * base + the (digitOf base c)) 0 ds"

text \<open>
  \<open>StrDecimalLiteral\<close> without its sign: \<open>Infinity\<close>, or digits with an optional
  fraction and an optional exponent, at least one digit before or after the point.
\<close>

definition unsignedDecimal :: "string \<Rightarrow> jsnum" where
  "unsignedDecimal t =
     (if t = ''Infinity'' then PInf
      else
        let ip = takeWhile (isDigit 10) t;
            r1 = dropWhile (isDigit 10) t;
            hasPoint = (r1 \<noteq> [] \<and> hd r1 = CHR ''.'');
            fp = (if hasPoint then takeWhile (isDigit 10) (tl r1) else []);
            r2 = (if hasPoint then dropWhile (isDigit 10) (tl r1) else r1);
            mant = real (digitsVal 10 (ip @ fp)) / 10 ^ length fp
        in if ip = [] \<and> fp = [] then NaN
           else if r2 = [] then Fin mant
           else if hd r2 = CHR ''e'' \<or> hd r2 = CHR ''E'' then
             (let r3 = tl r2;
                  neg = (r3 \<noteq> [] \<and> hd r3 = CHR ''-'');
                  ds = (if r3 \<noteq> [] \<and> (hd r3 = CHR ''-'' \<or> hd r3 = CHR ''+'') then tl r3 else r3)
              in if ds = [] \<or> \<not> list_all (isDigit 10) ds then NaN
                 else if neg then Fin (mant / 10 ^ digitsVal 10 ds)
                 else Fin (mant * 10 ^ digitsVal 10 ds))
           else NaN)"

definition radixLiteral :: "nat \<Rightarrow> string \<Rightarrow> jsnum" where
  "radixLiteral base ds =
     (if ds = [] \<or> \<not> list_all (isDigit base) ds then NaN else Fin (real (digitsVal base ds)))"

text \<open>
  \<open>Number(s)\<close> for a string: the string is trimmed; the empty string is \<open>0\<close>; a binary,
  octal or hexadecimal literal takes no sign; anything outside the grammar is NaN.
\<close>

definition StringToNumber :: "string \<Rightarrow> jsnum" where
  "StringToNumber s =
     (let t = trim s in
      if t = [] then Fin 0
      else if take 2 t \<in> set [''0x'', ''0X''] then radixLiteral 16 (drop 2 t)
      else if take 2 t \<in> set [''0o'', ''0O''] then radixLiteral 8 (drop 2 t)
      else if take 2 t \<in> set [''0b'', ''0B''] then radixLiteral 2 (drop 2 t)
      else if hd t = CHR ''-'' then jneg (unsignedDecimal (tl t))
      else if hd t = CHR ''+'' then unsignedDecimal (tl t)
      else unsignedDecimal t)"

text \<open>\<open>Number(v)\<close>.\<close>

fun Number :: "jsval \<Rightarrow> jsnum" where
  "Number JNull = Fin 0"
| "Number JUndefined = NaN"
| "Number (JBool b) = (if b then Fin 1 else Fin 0)"
| "Number (JNum n) = n"
| "Number (JStr s) = StringToNumber s"

subsection \<open>Rows and the heap\<close>

text \<open>
  A row is an object: its own properties in insertion order, no key twice. Reading an
  absent key gives undefined; assigning to a key replaces its value in place or appends
  the key. Members inherited from \<open>Object.prototype\<close> are not modelled.
\<close>

type_synonym row = "(string \<times> jsval) list"

definition getProp :: "row \<Rightarrow> string \<Rightarrow> jsval" where
  "getProp r k = (case map_of r k of None \<Rightarrow> JUndefined | Some v \<Rightarrow> v)"

definition setProp :: "row \<Rightarrow> string \<Rightarrow> jsval \<Rightarrow> row" where
  "setProp r k v = AList.update k v r"

text \<open>
  The imputation pass assigns to the fields of the row objects it is given. An array of
  rows is therefore a list of addresses into a heap of row objects, and every
  imputation function takes the heap and returns the heap it leaves behind.
\<close>

type_synonym addr = nat
type_synonym heap = "addr \<Rightarrow> row"

definition cell :: "heap \<Rightarrow> string \<Rightarrow> addr \<Rightarrow> jsval" where
  "cell h column a = getProp (h a) column"

definition assign :: "string \<Rightarrow> jsval \<Rightarrow> addr \<Rightarrow> heap \<Rightarrow> heap" where
  "assign column v a h = h(a := setProp (h a) column v)"

subsection \<open>What the host supplies\<close>

text \<open>
  Three library functions are left to the host: the text of a number
  (\<open>String(n)\<close>), \<open>Date.parse\<close> on a string, and \<open>toISOString\<close> of
  a valid time value. The functions of the engine take them as a parameter, so a theorem
  about every host holds whatever these functions compute.
\<close>

record host =
  numberToString :: "jsnum \<Rightarrow> string"
  dateParse :: "string \<Rightarrow> jsnum"
  toISOString :: "real \<Rightarrow> string"

text \<open>\<open>String(v)\<close>.\<close>

fun ToString :: "host \<Rightarrow> jsval \<Rightarrow> string" where
  "ToString env JNull = ''null''"
| "ToString env JUndefined = ''undefined''"
| "ToString env (JBool b) = (if b then ''true'' else ''false'')"
| "ToString env (JNum n) = numberToString env n"
| "ToString env (JStr s) = s"

subsection \<open>Arrays and objects of the language\<close>

text \<open>
  \<open>Array.prototype.sort\<close> with a comparator is stable: an element stays before
  another unless the comparator is positive on the pair (a NaN result counts as zero).
  For a comparator that orders its arguments consistently, as the two comparators of the
  engine do, the result is the one of a stable insertion sort.
\<close>

definition notPositive :: "jsnum \<Rightarrow> bool" where
  "notPositive d = (\<not> jless (Fin 0) d)"

fun insertSorted :: "('a \<Rightarrow> 'a \<Rightarrow> jsnum) \<Rightarrow> 'a \<Rightarrow> 'a list \<Rightarrow> 'a list" where
  "insertSorted cmp x [] = [x]"
| "insertSorted cmp x (y # ys) =
     (if notPositive (cmp x y) then x # y # ys else y # insertSorted cmp x ys)"

definition sortWith :: "('a \<Rightarrow> 'a \<Rightarrow> jsnum) \<Rightarrow> 'a list \<Rightarrow> 'a list" where
  "sortWith cmp xs = foldr (insertSorted cmp) xs []"

text \<open>
  Reading a number array out of range gives undefined, which is NaN in arithmetic.
\<close>

definition numAt :: "jsnum list \<Rightarrow> int \<Rightarrow> jsnum" where
  "numAt xs i = (if 0 \<le> i \<and> i < int (length xs) then xs ! nat i else NaN)"

text \<open>
  An object used as a table from strings: its own keys in insertion order.
  \<open>Object.entries\<close> lists the keys that are array indices first (the canonical
  decimal strings of the integers from \<open>0\<close> to \<open>2^32 - 2\<close>), in ascending numeric
  order, and then the other keys in insertion order. Members inherited from
  \<open>Object.prototype\<close> are not modelled.
\<close>

definition isArrayIndex :: "string \<Rightarrow> bool" where
  "isArrayIndex k =
     (k \<noteq> [] \<and> list_all (isDigit 10) k \<and> (k = ''0'' \<or> hd k \<noteq> CHR ''0'')
      \<and> int (digitsVal 10 k) \<le> 4294967294)"

definition entries :: "(string \<times> 'a) list \<Rightarrow> (string \<times> 'a) list" where
  "entries obj =
     sort_key (\<lambda>e. digitsVal 10 (fst e)) (filter (\<lambda>e. isArrayIndex (fst e)) obj)
     @ filter (\<lambda>e. \<not> isArrayIndex (fst e)) obj"

section \<open>Schema\<close>

text \<open>\<open>DataColumn\<close> of the ETL processor; \<open>stats\<close> is optional in the interface.\<close>

datatype columnType = TString | TNumber | TDate | TBoolean

record columnStats =
  min_stat :: "jsnum option"
  max_stat :: "jsnum option"
  avg :: "jsnum option"
  nullCount :: nat
  uniqueCount :: nat

record DataColumn =
  name :: string
  type :: columnType
  nullable :: bool
  unique :: bool
  stats :: "columnStats option"

section \<open>Imputation (data-imputation.ts)\<close>

datatype imputationMethod =
  Mean | Median | Mode | ForwardFill | BackwardFill | Interpolation | Custom

record ImputationStrategy =
  column :: string
  strategyMethod :: imputationMethod
  customValue :: jsval

datatype exn = TypeError

record ImputationResult =
  originalNullCount :: nat
  imputedCount :: int
  resultMethod :: imputationMethod
  success :: bool
  error :: "exn option"

text \<open>\<open>isNullOrEmpty\<close>: null, undefined, the empty string, or a string of white space.\<close>

fun isNullOrEmpty :: "jsval \<Rightarrow> bool" where
  "isNullOrEmpty JNull = True"
| "isNullOrEmpty JUndefined = True"
| "isNullOrEmpty (JStr s) = (s = [] \<or> trim s = [])"
| "isNullOrEmpty _ = False"

definition countNullValues :: "heap \<Rightarrow> addr list \<Rightarrow> string \<Rightarrow> nat" where
  "countNullValues h data col =
     length (filter (\<lambda>a. cell h col a = JNull \<or> cell h col a = JUndefined \<or> cell h col a = JStr []
                       \<or> (case cell h col a of JStr s \<Rightarrow> trim s = [] | _ \<Rightarrow> False)) data)"

text \<open>
  The values of a column that mean and median imputation count: not null, not undefined,
  not the empty string, and a number under \<open>Number\<close>.
\<close>

definition numericValues :: "heap \<Rightarrow> addr list \<Rightarrow> string \<Rightarrow> jsnum list" where
  "numericValues h data col =
     map Number
       (filter (\<lambda>val. val \<noteq> JNull \<and> val \<noteq> JUndefined \<and> val \<noteq> JStr [] \<and> \<not> isNaN (Number val))
          (map (cell h col) data))"

text \<open>
  The loop shared by the strategies that write one value: every row whose cell is null
  or empty at the time it is visited gets the value.
\<close>

definition fillEmpty :: "string \<Rightarrow> jsval \<Rightarrow> addr list \<Rightarrow> heap \<Rightarrow> heap" where
  "fillEmpty col v data h =
     fold (\<lambda>a h. if isNullOrEmpty (cell h col a) then assign col v a h else h) data h"

definition imputeWithMean :: "addr list \<Rightarrow> string \<Rightarrow> heap \<Rightarrow> heap" where
  "imputeWithMean data col h =
     (let validValues = numericValues h data col in
      if length validValues = 0 then h
      else
        let mean = jdiv (foldl jadd (Fin 0) validValues) (ofNat (length validValues))
        in fillEmpty col (JNum mean) data h)"

definition imputeWithMedian :: "addr list \<Rightarrow> string \<Rightarrow> heap \<Rightarrow> heap" where
  "imputeWithMedian data col h =
     (let validValues = sortWith jsub (numericValues h data col);
          n = length validValues in
      if n = 0 then h
      else
        let median =
              (if n mod 2 = 0
               then jdiv (jadd (numAt validValues (int n div 2 - 1)) (numAt validValues (int n div 2))) (Fin 2)
               else numAt validValues (int n div 2))
        in fillEmpty col (JNum median) data h)"

text \<open>
  The frequency table of mode imputation is an object literal,
  \<open>frequencies[key] = (frequencies[key] || 0) + 1\<close>, and inherits the members of
  \<open>Object.prototype\<close>. For the name of an inherited function the first read gives the
  function, the sum is the text of the function followed by \<open>1\<close>, and the table keeps
  a text that is no number from then on. For \<open>__proto__\<close> the read gives an object, and
  the setter ignores the text assigned: the table gets no key.
\<close>

definition inheritedFunctions :: "string list" where
  "inheritedFunctions =
     [''constructor'', ''hasOwnProperty'', ''isPrototypeOf'', ''propertyIsEnumerable'',
      ''toLocaleString'', ''toString'', ''valueOf'', ''__defineGetter__'', ''__defineSetter__'',
      ''__lookupGetter__'', ''__lookupSetter__'']"

definition inheritedName :: "string \<Rightarrow> bool" where
  "inheritedName k = (k = ''__proto__'' \<or> k \<in> set inheritedFunctions)"

datatype tallied = Count nat | FunctionText

definition tally :: "string \<Rightarrow> (string \<times> tallied) list \<Rightarrow> (string \<times> tallied) list" where
  "tally key frequencies =
     (if key = ''__proto__'' then frequencies
      else case map_of frequencies key of
             Some (Count c) \<Rightarrow> AList.update key (Count (c + 1)) frequencies
           | Some FunctionText \<Rightarrow> AList.update key FunctionText frequencies
           | None \<Rightarrow>
               AList.update key (if key \<in> set inheritedFunctions then FunctionText else Count 1)
                 frequencies)"

text \<open>The number that the comparator of the sort reads from an entry of the table.\<close>

definition talliedNumber :: "tallied \<Rightarrow> jsnum" where
  "talliedNumber t = (case t of Count c \<Rightarrow> ofNat c | FunctionText \<Rightarrow> NaN)"

definition modeValues :: "heap \<Rightarrow> addr list \<Rightarrow> string \<Rightarrow> jsval list" where
  "modeValues h data col =
     filter (\<lambda>val. val \<noteq> JNull \<and> val \<noteq> JUndefined \<and> val \<noteq> JStr []) (map (cell h col) data)"

definition frequencyTable :: "host \<Rightarrow> jsval list \<Rightarrow> (string \<times> tallied) list" where
  "frequencyTable env validValues = fold (\<lambda>val. tally (ToString env val)) validValues []"

text \<open>
  \<open>Object.entries(frequencies).sort(([, a], [, b]) => b - a)[0][0]\<close>; indexing the
  first entry of an empty list raises a TypeError. When the table holds the text of a
  function beside two different counts, the comparator is not consistent and the
  language leaves the order of the result to the implementation; the model then sorts
  as the stable insertion sort does, and no theorem below rests on that case.
\<close>

definition modeOf :: "(string \<times> tallied) list \<Rightarrow> exn + string" where
  "modeOf frequencies =
     (case sortWith (\<lambda>e1 e2. jsub (talliedNumber (snd e2)) (talliedNumber (snd e1)))
             (entries frequencies) of
        [] \<Rightarrow> Inl TypeError
      | e # _ \<Rightarrow> Inr (fst e))"

definition imputeWithMode :: "host \<Rightarrow> addr list \<Rightarrow> string \<Rightarrow> heap \<Rightarrow> exn + heap" where
  "imputeWithMode env data col h =
     (let validValues = modeValues h data col in
      if length validValues = 0 then Inr h
      else
        case modeOf (frequencyTable env validValues) of
          Inl e \<Rightarrow> Inl e
        | Inr mode \<Rightarrow> Inr (fillEmpty col (JStr mode) data h))"

text \<open>
  Forward and backward fill run the same loop body over the rows, first to last and last
  to first; the state of the loop is the heap and the last valid value seen.
\<close>

definition fillStep :: "string \<Rightarrow> addr \<Rightarrow> heap \<times> jsval \<Rightarrow> heap \<times> jsval" where
  "fillStep col a st =
     (case st of (h, lastValidValue) \<Rightarrow>
        if \<not> isNullOrEmpty (cell h col a) then (h, cell h col a)
        else if lastValidValue \<noteq> JNull then (assign col lastValidValue a h, lastValidValue)
        else (h, lastValidValue))"

definition imputeWithForwardFill :: "addr list \<Rightarrow> string \<Rightarrow> heap \<Rightarrow> heap" where
  "imputeWithForwardFill data col h = fst (fold (fillStep col) data (h, JNull))"

definition imputeWithBackwardFill :: "addr list \<Rightarrow> string \<Rightarrow> heap \<Rightarrow> heap" where
  "imputeWithBackwardFill data col h = fst (fold (fillStep col) (rev data) (h, JNull))"

text \<open>
  Interpolation reads the column once into \<open>numericData\<close> (\<open>None\<close> for a null or
  empty cell) and searches it, not the heap, for the neighbours of a gap.
\<close>

fun prevValid :: "jsnum option list \<Rightarrow> nat \<Rightarrow> nat option" where
  "prevValid numericData 0 = None"
| "prevValid numericData (Suc j) =
     (if numericData ! j = None then prevValid numericData j else Some j)"

function nextValid :: "jsnum option list \<Rightarrow> nat \<Rightarrow> nat option" where
  "nextValid numericData k =
     (if k < length numericData
      then (if numericData ! k = None then nextValid numericData (k + 1) else Some k)
      else None)"
  by pat_completeness auto
termination
  by (relation "measure (\<lambda>(numericData, k). length numericData - k)") auto

definition interpolateAt :: "jsnum option list \<Rightarrow> addr list \<Rightarrow> string \<Rightarrow> nat \<Rightarrow> heap \<Rightarrow> heap" where
  "interpolateAt numericData data col i h =
     (if numericData ! i = None then
        (case (prevValid numericData i, nextValid numericData (i + 1)) of
           (Some prevIndex, Some nextIndex) \<Rightarrow>
             let prevValue = the (numericData ! prevIndex);
                 nextValue = the (numericData ! nextIndex);
                 steps = ofNat (nextIndex - prevIndex);
                 stepSize = jdiv (jsub nextValue prevValue) steps
             in assign col (JNum (jadd prevValue (jmul stepSize (ofNat (i - prevIndex))))) (data ! i) h
         | _ \<Rightarrow> h)
      else h)"

definition imputeWithInterpolation :: "addr list \<Rightarrow> string \<Rightarrow> heap \<Rightarrow> heap" where
  "imputeWithInterpolation data col h =
     (let numericData =
            map (\<lambda>a. if isNullOrEmpty (cell h col a) then None else Some (Number (cell h col a))) data
      in fold (interpolateAt numericData data col) [0..<length numericData] h)"

definition imputeWithCustomValue :: "addr list \<Rightarrow> string \<Rightarrow> jsval \<Rightarrow> heap \<Rightarrow> heap" where
  "imputeWithCustomValue data col v h = fillEmpty col v data h"

text \<open>
  \<open>imputeMissingData\<close>. \<open>[...data]\<close> copies the array, not the rows: the copy holds
  the same addresses. A strategy whose column is not among \<open>columns\<close> is skipped; an
  exception of a strategy is caught and recorded in its result (the model keeps the
  exception where the program keeps its message).
\<close>

definition runStrategy :: "host \<Rightarrow> addr list \<Rightarrow> ImputationStrategy \<Rightarrow> heap \<Rightarrow> exn + heap" where
  "runStrategy env imputedData strategy h =
     (case strategyMethod strategy of
        Mean \<Rightarrow> Inr (imputeWithMean imputedData (column strategy) h)
      | Median \<Rightarrow> Inr (imputeWithMedian imputedData (column strategy) h)
      | Mode \<Rightarrow> imputeWithMode env imputedData (column strategy) h
      | ForwardFill \<Rightarrow> Inr (imputeWithForwardFill imputedData (column strategy) h)
      | BackwardFill \<Rightarrow> Inr (imputeWithBackwardFill imputedData (column strategy) h)
      | Interpolation \<Rightarrow> Inr (imputeWithInterpolation imputedData (column strategy) h)
      | Custom \<Rightarrow> Inr (imputeWithCustomValue imputedData (column strategy) (customValue strategy) h))"

definition applyStrategy ::
  "host \<Rightarrow> addr list \<Rightarrow> addr list \<Rightarrow> DataColumn list \<Rightarrow> ImputationStrategy
   \<Rightarrow> heap \<times> (string \<times> ImputationResult) list \<Rightarrow> heap \<times> (string \<times> ImputationResult) list" where
  "applyStrategy env data imputedData columns strategy st =
     (case st of (h, results) \<Rightarrow>
        case find (\<lambda>c. name c = column strategy) columns of
          None \<Rightarrow> (h, results)
        | Some _ \<Rightarrow>
            let originalNullCount = countNullValues h data (column strategy) in
            case runStrategy env imputedData strategy h of
              Inr h' \<Rightarrow>
                let finalNullCount = countNullValues h' imputedData (column strategy) in
                (h', AList.update (column strategy)
                       \<lparr>originalNullCount = originalNullCount,
                        imputedCount = int originalNullCount - int finalNullCount,
                        resultMethod = strategyMethod strategy,
                        success = True, error = None\<rparr> results)
            | Inl e \<Rightarrow>
                (h, AList.update (column strategy)
                      \<lparr>originalNullCount = originalNullCount,
                       imputedCount = 0,
                       resultMethod = strategyMethod strategy,
                       success = False, error = Some e\<rparr> results))"

definition imputeMissingData ::
  "host \<Rightarrow> addr list \<Rightarrow> DataColumn list \<Rightarrow> ImputationStrategy list \<Rightarrow> heap
   \<Rightarrow> heap \<times> addr list \<times> (string \<times> ImputationResult) list" where
  "imputeMissingData env data columns strategies h =
     (let imputedData = data;
          (h', results) = fold (applyStrategy env data imputedData columns) strategies (h, [])
      in (h', imputedData, results))"

section \<open>The ETL processor\<close>

text \<open>
  The functions of the ETL processor build new rows and assign to none of the rows they
  are given, so here an array of rows is a list of rows.
\<close>

record DataQualityReport =
  totalRows :: nat
  totalColumns :: nat
  duplicateRows :: nat
  nullValues :: nat
  dataTypes :: "(string \<times> columnType) list"
  qualityScore :: jsnum
  issues :: "string list"
  suggestions :: "string list"

record ProcessedData =
  data :: "row list"
  columns :: "DataColumn list"
  qualityReport :: DataQualityReport
  originalRowCount :: nat
  cleanedRowCount :: nat

definition present :: "jsval \<Rightarrow> bool" where
  "present val = (val \<noteq> JNull \<and> val \<noteq> JUndefined \<and> val \<noteq> JStr [])"

text \<open>The non-null, non-empty values of a column, in row order.\<close>

definition observed :: "row list \<Rightarrow> string \<Rightarrow> jsval list" where
  "observed rows header = filter present (map (\<lambda>r. getProp r header) rows)"

definition booleanLike :: "jsval \<Rightarrow> bool" where
  "booleanLike val =
     ((case val of JBool _ \<Rightarrow> True | _ \<Rightarrow> False) \<or> val = JStr ''true'' \<or> val = JStr ''false''
      \<or> val = JStr ''1'' \<or> val = JStr ''0'')"

text \<open>
  The type of a column: the first of the three tests that every observed value passes,
  and string when none does. \<open>Date.parse\<close> reads the text of its argument.
\<close>

definition inferType :: "host \<Rightarrow> jsval list \<Rightarrow> columnType" where
  "inferType env vals =
     (if list_all booleanLike vals then TBoolean
      else if list_all (\<lambda>val. \<not> isNaN (Number val) \<and> val \<noteq> JStr []) vals then TNumber
      else if list_all (\<lambda>val. \<not> isNaN (dateParse env (ToString env val))) vals then TDate
      else TString)"

definition detectColumn :: "host \<Rightarrow> row list \<Rightarrow> string \<Rightarrow> DataColumn" where
  "detectColumn env rows header =
     (let vals = observed rows header;
          nullCount = length rows - length vals;
          uniqueValues = remdups vals;
          ty = inferType env vals;
          stats =
            (if ty = TNumber
             then \<lparr>min_stat = Some (foldl jmin PInf (map Number vals)),
                   max_stat = Some (foldl jmax NInf (map Number vals)),
                   avg = Some (jdiv (foldl (\<lambda>sum val. jadd sum (Number val)) (Fin 0) vals)
                                    (ofNat (length vals))),
                   nullCount = nullCount, uniqueCount = length uniqueValues\<rparr>
             else \<lparr>min_stat = None, max_stat = None, avg = None,
                   nullCount = nullCount, uniqueCount = length uniqueValues\<rparr>)
      in \<lparr>name = header, type = ty, nullable = (nullCount > 0),
          unique = (length uniqueValues = length vals), stats = Some stats\<rparr>)"

definition detectDataTypes :: "host \<Rightarrow> row list \<Rightarrow> string list \<Rightarrow> DataColumn list" where
  "detectDataTypes env rows headers = map (detectColumn env rows) headers"

text \<open>
  \<open>new Date(value)\<close> parses a string and takes any other value as a number of
  milliseconds, clipped to the range of time values.
\<close>

definition timeClip :: "jsnum \<Rightarrow> jsnum" where
  "timeClip t =
     (case t of
        Fin x \<Rightarrow> if \<bar>x\<bar> > 8640000000000000 then NaN
                 else Fin (of_int (if x \<ge> 0 then \<lfloor>x\<rfloor> else \<lceil>x\<rceil>))
      | _ \<Rightarrow> NaN)"

definition newDate :: "host \<Rightarrow> jsval \<Rightarrow> jsnum" where
  "newDate env v = (case v of JStr s \<Rightarrow> dateParse env s | _ \<Rightarrow> timeClip (Number v))"

definition cleanValue :: "host \<Rightarrow> columnType \<Rightarrow> jsval \<Rightarrow> jsval" where
  "cleanValue env ty v =
     (if v = JNull \<or> v = JUndefined \<or> v = JStr [] then JNull
      else case ty of
        TNumber \<Rightarrow> (let numValue = Number v in if isNaN numValue then JNull else JNum numValue)
      | TBoolean \<Rightarrow>
          (case v of
             JBool b \<Rightarrow> JBool b
           | _ \<Rightarrow> JBool (v = JStr ''true'' \<or> v = JStr ''1'' \<or> v = JNum (Fin 1)))
      | TDate \<Rightarrow>
          (case newDate env v of
             Fin t \<Rightarrow> JStr (toISOString env t)
           | _ \<Rightarrow> JNull)
      | TString \<Rightarrow> JStr (trim (ToString env v)))"

definition cleanRow :: "host \<Rightarrow> DataColumn list \<Rightarrow> row \<Rightarrow> row" where
  "cleanRow env cols r =
     fold (\<lambda>c cleanedRow. setProp cleanedRow (name c) (cleanValue env (type c) (getProp r (name c))))
       cols []"

definition cleanData :: "host \<Rightarrow> row list \<Rightarrow> DataColumn list \<Rightarrow> row list" where
  "cleanData env rows cols = map (cleanRow env cols) rows"

text \<open>
  \<open>JSON.stringify\<close> of a row: the properties in the order of \<open>Object.entries\<close>,
  one whose value is undefined left out, a number that is not finite written
  \<open>null\<close>, a string quoted with its escapes.
\<close>

definition hexDigit :: "nat \<Rightarrow> char" where
  "hexDigit d = ''0123456789abcdef'' ! d"

definition quoteChar :: "char \<Rightarrow> string" where
  "quoteChar c =
     (if c = CHR 0x22 then [CHR 0x5C, CHR 0x22]
      else if c = CHR 0x5C then [CHR 0x5C, CHR 0x5C]
      else if c = CHR 0x08 then [CHR 0x5C, CHR ''b'']
      else if c = CHR 0x0C then [CHR 0x5C, CHR ''f'']
      else if c = CHR 0x0A then [CHR 0x5C, CHR ''n'']
      else if c = CHR 0x0D then [CHR 0x5C, CHR ''r'']
      else if c = CHR 0x09 then [CHR 0x5C, CHR ''t'']
      else if (of_char c :: nat) < 32
        then [CHR 0x5C, CHR ''u'', CHR ''0'', CHR ''0'',
              hexDigit ((of_char c :: nat) div 16), hexDigit ((of_char c :: nat) mod 16)]
      else [c])"

definition quoteJSON :: "string \<Rightarrow> string" where
  "quoteJSON s = [CHR 0x22] @ concat (map quoteChar s) @ [CHR 0x22]"

definition jsonValue :: "host \<Rightarrow> jsval \<Rightarrow> string" where
  "jsonValue env v =
     (case v of
        JNull \<Rightarrow> ''null''
      | JUndefined \<Rightarrow> ''null''
      | JBool b \<Rightarrow> (if b then ''true'' else ''false'')
      | JNum n \<Rightarrow> (if isFinite n then numberToString env n else ''null'')
      | JStr s \<Rightarrow> quoteJSON s)"

fun joinWith :: "string \<Rightarrow> string list \<Rightarrow> string" where
  "joinWith sep [] = []"
| "joinWith sep [x] = x"
| "joinWith sep (x # y # ys) = x @ sep @ joinWith sep (y # ys)"

definition JSONstringify :: "host \<Rightarrow> row \<Rightarrow> string" where
  "JSONstringify env r =
     ''{'' @ joinWith '',''
              (map (\<lambda>e. quoteJSON (fst e) @ '':'' @ jsonValue env (snd e))
                 (filter (\<lambda>e. snd e \<noteq> JUndefined) (entries r)))
     @ ''}''"

text \<open>
  \<open>removeDuplicates\<close>: the state of the loop is the set of keys seen, the rows kept
  and the count of rows dropped.
\<close>

definition dedupStep ::
  "host \<Rightarrow> row \<Rightarrow> string list \<times> row list \<times> nat \<Rightarrow> string list \<times> row list \<times> nat" where
  "dedupStep env r st =
     (case st of (seen, uniqueData, duplicateCount) \<Rightarrow>
        let key = JSONstringify env r in
        if key \<notin> set seen then (key # seen, uniqueData @ [r], duplicateCount)
        else (seen, uniqueData, duplicateCount + 1))"

definition removeDuplicates :: "host \<Rightarrow> row list \<Rightarrow> row list \<times> nat" where
  "removeDuplicates env rows =
     (case fold (dedupStep env) rows ([], [], 0) of
        (seen, uniqueData, duplicateCount) \<Rightarrow> (uniqueData, duplicateCount))"

text \<open>
  \<open>generateQualityReport\<close>. Of \<open>data\<close> only the length is read. The two counts it
  is given are counts of rows.
\<close>

definition statsNullCount :: "DataColumn \<Rightarrow> nat" where
  "statsNullCount c = (case stats c of None \<Rightarrow> 0 | Some st \<Rightarrow> nullCount st)"

definition columnIssues :: "nat \<Rightarrow> DataColumn list \<Rightarrow> DataColumn list" where
  "columnIssues nrows cols =
     filter (\<lambda>c. case stats c of None \<Rightarrow> False
                 | Some st \<Rightarrow> real (nullCount st) > real nrows * (1 / 2)) cols"

definition generateQualityReport ::
  "host \<Rightarrow> row list \<Rightarrow> DataColumn list \<Rightarrow> nat \<Rightarrow> nat \<Rightarrow> DataQualityReport" where
  "generateQualityReport env rows cols originalRows duplicateCount =
     (let totalRows = length rows;
          totalColumns = length cols;
          nullValues = foldl (\<lambda>sum c. sum + statsNullCount c) 0 cols;
          issues1 =
            (if duplicateCount > 0
             then [''Found '' @ numberToString env (ofNat duplicateCount) @ '' duplicate rows'']
             else []);
          suggestions1 =
            (if duplicateCount > 0
             then [''Consider reviewing data source for duplicate entries'']
             else []);
          issues2 =
            (if real nullValues > real totalRows * real totalColumns * (1 / 10)
             then [''High number of missing values ('' @ numberToString env (ofNat nullValues) @ '')'']
             else []);
          suggestions2 =
            (if real nullValues > real totalRows * real totalColumns * (1 / 10)
             then [''Consider data imputation or additional data collection'']
             else []);
          issues3 =
            map (\<lambda>c. ''Column '' @ [CHR 0x22] @ name c @ [CHR 0x22] @ '' has >50% missing values'')
              (columnIssues totalRows cols);
          suggestions3 =
            map (\<lambda>c. ''Consider removing or imputing values for column '' @ [CHR 0x22] @ name c @ [CHR 0x22])
              (columnIssues totalRows cols);
          issues = issues1 @ issues2 @ issues3;
          q1 = jsub (Fin 100) (jmul (jdiv (ofNat duplicateCount) (ofNat originalRows)) (Fin 20));
          q2 = jsub q1 (jmul (jdiv (ofNat nullValues) (ofNat (totalRows * totalColumns))) (Fin 30));
          q3 = jsub q2 (ofNat (length issues * 5));
          q4 = jmax (Fin 0) (jmin (Fin 100) q3)
      in \<lparr>totalRows = totalRows, totalColumns = totalColumns, duplicateRows = duplicateCount,
          nullValues = nullValues,
          dataTypes = fold (\<lambda>c acc. AList.update (name c) (type c) acc) cols [],
          qualityScore = jround q4,
          issues = issues, suggestions = suggestions1 @ suggestions2 @ suggestions3\<rparr>)"

text \<open>
  \<open>transformData\<close>. Its first step keeps the rows that have a value which is not
  null, undefined or the empty string.
\<close>

definition nonEmptyRows :: "row list \<Rightarrow> row list" where
  "nonEmptyRows rows = filter (\<lambda>r. list_ex present (map snd r)) rows"

definition transformData :: "host \<Rightarrow> row list \<Rightarrow> string list \<Rightarrow> ProcessedData" where
  "transformData env rawData headers =
     (let originalRowCount = length rawData;
          cleanedData = nonEmptyRows rawData;
          cols = detectDataTypes env cleanedData headers;
          cleanedData = cleanData env cleanedData cols;
          (deduplicatedData, duplicateCount) = removeDuplicates env cleanedData;
          report = generateQualityReport env deduplicatedData cols originalRowCount duplicateCount
      in \<lparr>data = deduplicatedData, columns = cols, qualityReport = report,
          originalRowCount = originalRowCount, cleanedRowCount = length deduplicatedData\<rparr>)"

section \<open>Exploratory analysis (enhanced-etl-processor.ts)\<close>

text \<open>
  Of a column the two analyses below read the name and the type only, so the columns are
  taken as \<open>DataColumn\<close> records.
\<close>

record correlationEntry =
  column1 :: string
  column2 :: string
  correlation :: jsnum

record outlierEntry =
  outlierColumn :: string
  outlierMethod :: string
  count :: nat
  outlierValues :: "jsnum list"

text \<open>
  \<open>calculatePearsonCorrelation\<close>, in the arithmetic of doubles: every sum, product,
  difference, quotient and square root is rounded. The length \<open>n\<close> of an array is below
  \<open>2^32\<close> and a double as it is.
\<close>

definition calculatePearsonCorrelation :: "jsnum list \<Rightarrow> jsnum list \<Rightarrow> jsnum" where
  "calculatePearsonCorrelation x y =
     (let n = min (length x) (length y) in
      if n = 0 then Fin 0
      else
        let sumX = foldl (\<lambda>a b. radd a b) (Fin 0) (take n x);
            sumY = foldl (\<lambda>a b. radd a b) (Fin 0) (take n y);
            sumXY = foldl (\<lambda>sum p. radd sum (rmul (fst p) (snd p))) (Fin 0) (zip (take n x) y);
            sumX2 = foldl (\<lambda>sum xi. radd sum (rmul xi xi)) (Fin 0) (take n x);
            sumY2 = foldl (\<lambda>sum yi. radd sum (rmul yi yi)) (Fin 0) (take n y);
            numerator = rsub (rmul (ofNat n) sumXY) (rmul sumX sumY);
            denominator =
              rsqrt (rmul (rsub (rmul (ofNat n) sumX2) (rmul sumX sumX))
                          (rsub (rmul (ofNat n) sumY2) (rmul sumY sumY)))
        in if denominator = Fin 0 then Fin 0 else rdiv numerator denominator)"

text \<open>
  The rows of two columns where both values are numbers under \<open>Number\<close>, which gives
  the double nearest to the value of a numeric text.
\<close>

definition coObserved :: "row list \<Rightarrow> string \<Rightarrow> string \<Rightarrow> (jsnum \<times> jsnum) list" where
  "coObserved rows col1 col2 =
     filter (\<lambda>p. \<not> isNaN (fst p) \<and> \<not> isNaN (snd p))
       (map (\<lambda>r. (rounded (Number (getProp r col1)), rounded (Number (getProp r col2)))) rows)"

definition correlatePair :: "row list \<Rightarrow> string \<Rightarrow> string \<Rightarrow> correlationEntry list" where
  "correlatePair rows col1 col2 =
     (let pairs = coObserved rows col1 col2 in
      if length pairs > 1
      then [\<lparr>column1 = col1, column2 = col2,
             correlation = calculatePearsonCorrelation (map fst pairs) (map snd pairs)\<rparr>]
      else [])"

text \<open>
  \<open>calculateAdvancedCorrelations\<close>: the two loops run over the index pairs
  \<open>i < j\<close> of the numeric columns, in lexicographic order.
\<close>

definition numericColumns :: "DataColumn list \<Rightarrow> DataColumn list" where
  "numericColumns cols = filter (\<lambda>c. type c = TNumber) cols"

definition calculateAdvancedCorrelations :: "row list \<Rightarrow> DataColumn list \<Rightarrow> correlationEntry list" where
  "calculateAdvancedCorrelations rows cols =
     concat (map (\<lambda>i.
       concat (map (\<lambda>j. correlatePair rows (name (numericColumns cols ! i)) (name (numericColumns cols ! j)))
                 [i + 1..<length (numericColumns cols)]))
       [0..<length (numericColumns cols)])"

text \<open>
  \<open>percentile\<close>: \<open>index % 1\<close> is the fraction of the index with the sign of the
  index.
\<close>

definition percentile :: "jsnum list \<Rightarrow> real \<Rightarrow> jsnum" where
  "percentile vals p =
     (let index = (p / 100) * (real (length vals) - 1);
          lower = \<lfloor>index\<rfloor>;
          upper = \<lceil>index\<rceil>;
          weight = index - of_int (if index \<ge> 0 then \<lfloor>index\<rfloor> else \<lceil>index\<rceil>)
      in if upper \<ge> int (length vals) then numAt vals (int (length vals) - 1)
         else jadd (jmul (numAt vals lower) (Fin (1 - weight))) (jmul (numAt vals upper) (Fin weight)))"

definition iqrOutliers :: "jsnum list \<Rightarrow> jsnum list" where
  "iqrOutliers vals =
     (let q1 = percentile vals 25;
          q3 = percentile vals 75;
          iqr = jsub q3 q1;
          lowerBound = jsub q1 (jmul (Fin (3 / 2)) iqr);
          upperBound = jadd q3 (jmul (Fin (3 / 2)) iqr)
      in filter (\<lambda>val. jless val lowerBound \<or> jgreater val upperBound) vals)"

definition zScoreOutliers :: "jsnum list \<Rightarrow> jsnum list" where
  "zScoreOutliers vals =
     (let mean = jdiv (foldl jadd (Fin 0) vals) (ofNat (length vals));
          stdDev = jsqrt (jdiv (foldl (\<lambda>sum val. jadd sum (jmul (jsub val mean) (jsub val mean)))
                                  (Fin 0) vals)
                               (ofNat (length vals)))
      in filter (\<lambda>val. jgreater (jabs (jdiv (jsub val mean) stdDev)) (Fin 3)) vals)"

definition sortedNumbers :: "row list \<Rightarrow> string \<Rightarrow> jsnum list" where
  "sortedNumbers rows col =
     sortWith jsub (filter (\<lambda>val. \<not> isNaN val) (map (\<lambda>r. Number (getProp r col)) rows))"

definition columnOutliers :: "row list \<Rightarrow> DataColumn \<Rightarrow> outlierEntry list" where
  "columnOutliers rows col =
     (let vals = sortedNumbers rows (name col) in
      if length vals > 4 then
        (if length (iqrOutliers vals) > 0
         then [\<lparr>outlierColumn = name col, outlierMethod = ''IQR'',
                count = length (iqrOutliers vals), outlierValues = take 10 (iqrOutliers vals)\<rparr>]
         else [])
        @ (if length (zScoreOutliers vals) > 0
           then [\<lparr>outlierColumn = name col, outlierMethod = ''Z-Score'',
                  count = length (zScoreOutliers vals),
                  outlierValues = take 10 (zScoreOutliers vals)\<rparr>]
           else [])
      else [])"

definition detectAdvancedOutliers :: "row list \<Rightarrow> DataColumn list \<Rightarrow> outlierEntry list" where
  "detectAdvancedOutliers rows cols =
     concat (map (columnOutliers rows) (numericColumns cols))"

section \<open>A host for the examples\<close>

text \<open>
  Examples are evaluated on \<open>sampleHost\<close>. It writes an integer in decimal, as every
  host does for an integer below \<open>10^21\<close>. Its \<open>Date.parse\<close> recognises no string;
  the examples that follow use it only on text without a digit, where every host answers
  NaN.
\<close>

function natText :: "nat \<Rightarrow> string" where
  "natText n = (if n < 10 then [hexDigit n] else natText (n div 10) @ [hexDigit (n mod 10)])"
  by pat_completeness auto
termination
  by (relation "measure id") auto

definition sampleNumberText :: "jsnum \<Rightarrow> string" where
  "sampleNumberText n =
     (case n of
        NaN \<Rightarrow> ''NaN''
      | PInf \<Rightarrow> ''Infinity''
      | NInf \<Rightarrow> ''-Infinity''
      | Fin x \<Rightarrow> (if x < 0 then ''-'' else []) @ natText (nat \<lfloor>\<bar>x\<bar>\<rfloor>))"

definition sampleHost :: host where
  "sampleHost = \<lparr>numberToString = sampleNumberText, dateParse = (\<lambda>s. NaN), toISOString = (\<lambda>t. [])\<rparr>"

section \<open>Example data\<close>

text \<open>The rows \<open>[{a:"1"},{a:"2"},{a:null},{a:"4"}]\<close>, at the addresses 0 to 3.\<close>

definition exampleRows :: heap where
  "exampleRows = (\<lambda>a. [])(0 := [(''a'', JStr ''1'')], 1 := [(''a'', JStr ''2'')],
                           2 := [(''a'', JNull)], 3 := [(''a'', JStr ''4'')])"

text \<open>The rows \<open>[{a:1},{a:null}]\<close>, at the addresses 0 and 1, and their column.\<close>

definition sharedRows :: heap where
  "sharedRows = (\<lambda>a. [])(0 := [(''a'', JNum (Fin 1))], 1 := [(''a'', JNull)])"

definition columnA :: DataColumn where
  "columnA = \<lparr>name = ''a'', type = TNumber, nullable = True, unique = True, stats = None\<rparr>"

text \<open>The rows \<open>[{a:null},{a:"x"},{a:" "}]\<close>, at the addresses 0 to 2.\<close>

definition gapRows :: heap where
  "gapRows = (\<lambda>a. [])(0 := [(''a'', JNull)], 1 := [(''a'', JStr ''x'')], 2 := [(''a'', JStr '' '')])"

section \<open>Auxiliary notions of the proofs\<close>

text \<open>A cell that is neither null nor empty, and a value that a fill pass carries on.\<close>

definition filled :: "heap \<Rightarrow> string \<Rightarrow> addr \<Rightarrow> bool" where
  "filled h col a = (\<not> isNullOrEmpty (cell h col a))"

definition carries :: "jsval \<Rightarrow> bool" where
  "carries v = (v \<noteq> JNull \<and> \<not> isNullOrEmpty v)"

section \<open>Mode imputation: the key that wins\<close>

text \<open>A key that no key of the list occurs more often than.\<close>

definition mostFrequent :: "string list \<Rightarrow> string \<Rightarrow> bool" where
  "mostFrequent keys k = list_all (\<lambda>k'. count_list keys k' \<le> count_list keys k) keys"

text \<open>
  After the words of the specification: of the most frequent keys, the one met first
  when the values are tabulated.
\<close>

definition firstEncounteredMode :: "string list \<Rightarrow> string" where
  "firstEncounteredMode keys = hd (filter (mostFrequent keys) keys)"

text \<open>
  The keys in the order of their first occurrence, and in the order in which the
  frequency table lists them: array indices first, by value.
\<close>

fun firstSeen :: "'a list \<Rightarrow> 'a list" where
  "firstSeen [] = []"
| "firstSeen (x # xs) = x # filter (\<lambda>y. y \<noteq> x) (firstSeen xs)"

definition keyOrder :: "string list \<Rightarrow> string list" where
  "keyOrder keys =
     sort_key (digitsVal 10) (filter isArrayIndex (firstSeen keys))
     @ filter (\<lambda>k. \<not> isArrayIndex k) (firstSeen keys)"

definition keyOrderMode :: "string list \<Rightarrow> string" where
  "keyOrderMode keys = hd (filter (mostFrequent keys) (keyOrder keys))"

text \<open>
  After the words of the specification: a value is null or empty when it is null,
  undefined, the empty string, or a string that is empty after trimming.
\<close>

definition missingValue :: "jsval \<Rightarrow> bool" where
  "missingValue v = (v = JNull \<or> v = JUndefined \<or> v = JStr [] \<or> (\<exists>s. v = JStr s \<and> trim s = []))"

text \<open>
  The count that an entry of the frequency table holds, and an entry whose count no
  entry of the table exceeds.
\<close>

definition countOf :: "tallied \<Rightarrow> nat" where
  "countOf t = (case t of Count c \<Rightarrow> c | FunctionText \<Rightarrow> 0)"

definition topCount :: "('a \<times> tallied) list \<Rightarrow> 'a \<times> tallied \<Rightarrow> bool" where
  "topCount es e = (\<forall>e' \<in> set es. countOf (snd e') \<le> countOf (snd e))"

text \<open>
  The rows \<open>[{a:"2"},{a:"1"},{a:null}]\<close>, \<open>[{a:"b"},{a:"a"},{a:null}]\<close> and
  \<open>[{n:7},{n:null},{n:7}]\<close>, each at the addresses 0 to 2.
\<close>

definition tieRows :: heap where
  "tieRows = (\<lambda>a. [])(0 := [(''a'', JStr ''2'')], 1 := [(''a'', JStr ''1'')], 2 := [(''a'', JNull)])"

definition wordRows :: heap where
  "wordRows = (\<lambda>a. [])(0 := [(''a'', JStr ''b'')], 1 := [(''a'', JStr ''a'')], 2 := [(''a'', JNull)])"



definition constructorRows :: heap where
  "constructorRows =
     (\<lambda>a. [])(0 := [(''a'', JStr ''constructor'')], 1 := [(''a'', JStr ''x'')],
               2 := [(''a'', JStr ''x'')], 3 := [(''a'', JNull)])"

section \<open>Cleaning twice\<close>

text \<open>The rows \<open>[{a:"1"},{a:"true "}]\<close> and \<open>[{a:"x"},{a:"x"},{a:"y"}]\<close>.\<close>

definition mergingRows :: "row list" where
  "mergingRows = [[(''a'', JStr ''1'')], [(''a'', JStr ''true '')]]"

definition wordTable :: "row list" where
  "wordTable = [[(''a'', JStr ''x'')], [(''a'', JStr ''x'')], [(''a'', JStr ''y'')]]"


section \<open>The outlier example\<close>

text \<open>A numeric column \<open>v\<close> whose values are 1, 2, 3, 4 and 100.\<close>

definition outlierRows :: "row list" where
  "outlierRows = [[(''v'', JNum (Fin 1))], [(''v'', JNum (Fin 2))], [(''v'', JNum (Fin 3))],
                  [(''v'', JNum (Fin 4))], [(''v'', JNum (Fin 100))]]"

definition columnV :: DataColumn where
  "columnV = \<lparr>name = ''v'', type = TNumber, nullable = False, unique = True, stats = None\<rparr>"

section \<open>The correlation examples\<close>

text \<open>
  Three rows over the numeric columns \<open>x\<close>, \<open>y\<close>, \<open>c\<close> and \<open>s\<close>: \<open>c\<close> is constant and
  only the first row has a value for \<open>s\<close>.
\<close>

definition correlationRows :: "row list" where
  "correlationRows =
     [[(''x'', JNum (Fin 1)), (''y'', JNum (Fin 2)), (''c'', JNum (Fin 5)), (''s'', JNum (Fin 9))],
      [(''x'', JNum (Fin 2)), (''y'', JNum (Fin 4)), (''c'', JNum (Fin 5))],
      [(''x'', JNum (Fin 3)), (''y'', JNum (Fin 6)), (''c'', JNum (Fin 5))]]"

definition correlationColumns :: "DataColumn list" where
  "correlationColumns =
     map (\<lambda>n. \<lparr>name = n, type = TNumber, nullable = False, unique = False, stats = None\<rparr>)
       [''x'', ''y'', ''c'', ''s'']"

text \<open>
  Five rows over the numeric columns \<open>c\<close> and \<open>y\<close> as a CSV file gives them: \<open>c\<close>
  is \<open>"0.7"\<close> in every row and \<open>y\<close> runs from \<open>"1"\<close> to \<open>"5"\<close>.
\<close>

definition constantRows :: "row list" where
  "constantRows =
     [[(''c'', JStr ''0.7''), (''y'', JStr ''1'')],
      [(''c'', JStr ''0.7''), (''y'', JStr ''2'')],
      [(''c'', JStr ''0.7''), (''y'', JStr ''3'')],
      [(''c'', JStr ''0.7''), (''y'', JStr ''4'')],
      [(''c'', JStr ''0.7''), (''y'', JStr ''5'')]]"

definition constantColumns :: "DataColumn list" where
  "constantColumns =
     map (\<lambda>n. \<lparr>name = n, type = TNumber, nullable = False, unique = False, stats = None\<rparr>)
       [''c'', ''y'']"

section \<open>Rows and cells\<close>

lemma getProp_setProp: "getProp (setProp r k v) k' = (if k' = k then v else getProp r k')"
  by (simp add: getProp_def setProp_def update_conv')

lemma cell_assign: "cell (assign col v a h) col' b = (if b = a then (if col' = col then v else cell h col' b) else cell h col' b)"
  by (simp add: cell_def assign_def getProp_setProp)


section \<open>The quality score\<close>

text \<open>
  With no original row the first penalty of the score is \<open>0 / 0\<close>, which is NaN, and
  NaN passes through the clamp and the rounding: whatever the columns, the score of a
  report over zero original rows is NaN.
\<close>

lemma score_without_rows: "qualityScore (generateQualityReport env rows cols 0 0) = NaN"
  by (simp add: generateQualityReport_def Let_def ofNat_def jsub_def jmin_def jmax_def infOfSign_def)

text \<open>
  With an original row and a cell to count, the score is a number between 0 and 100.
\<close>

lemma clamp_round_range:
  "\<exists>q. jround (jmax (Fin 0) (jmin (Fin 100) (Fin r))) = Fin q \<and> 0 \<le> q \<and> q \<le> 100"
proof -
  define x where "x = max 0 (min 100 r)"
  have c: "jmax (Fin 0) (jmin (Fin 100) (Fin r)) = Fin x"
    by (auto simp: jmax_def jmin_def x_def)
  have "0 \<le> x" "x \<le> 100" by (simp_all add: x_def)
  then have "0 \<le> \<lfloor>x + 1 / 2\<rfloor>" "\<lfloor>x + 1 / 2\<rfloor> \<le> 100" by linarith+
  then have "0 \<le> (of_int \<lfloor>x + 1 / 2\<rfloor> :: real)" "(of_int \<lfloor>x + 1 / 2\<rfloor> :: real) \<le> 100"
    by (simp_all add: of_int_le_iff[of _ 100, simplified])
  then show ?thesis by (simp add: c)
qed

lemma score_in_range:
  assumes "0 < originalRows" "0 < length rows * length cols"
  shows "\<exists>q. qualityScore (generateQualityReport env rows cols originalRows duplicateCount) = Fin q
             \<and> 0 \<le> q \<and> q \<le> 100"
proof -
  obtain r where "qualityScore (generateQualityReport env rows cols originalRows duplicateCount)
      = jround (jmax (Fin 0) (jmin (Fin 100) (Fin r)))"
    using assms by (simp add: generateQualityReport_def Let_def ofNat_def jsub_def)
  then show ?thesis using clamp_round_range[of r] by simp
qed

text \<open>
  C1. The claim: the quality score is a number between 0 and 100 for every input, a
  penalty with a zero denominator counting as 0. On the empty dataset with one header
  the first penalty is \<open>0 / 0\<close>, and on the one row \<open>{a: null}\<close>, which the first
  step drops, the second one is: \<open>transformData\<close> reports the score NaN for both.
\<close>

theorem empty_dataset_score:
  "qualityScore (qualityReport (transformData sampleHost [] [''a''])) = NaN
   \<and> qualityScore (qualityReport (transformData sampleHost [[(''a'', JNull)]] [''a''])) = NaN"
  by code_simp

section \<open>Type inference\<close>

text \<open>
  On every host, a column with no value that is not null, undefined or the empty string
  is typed boolean; its null count is the number of rows and it has no unique value.
\<close>

lemma empty_column_is_boolean:
  assumes "observed rows header = []"
  shows "detectColumn env rows header
     = \<lparr>name = header, type = TBoolean, nullable = (0 < length rows), unique = True,
         stats = Some \<lparr>min_stat = None, max_stat = None, avg = None,
                       nullCount = length rows, uniqueCount = 0\<rparr>\<rparr>"
  using assms by (simp add: detectColumn_def inferType_def Let_def)

text \<open>
  C2. The claim: a column with no non-null, non-empty value is inferred as string,
  with \<open>nullCount\<close> the number of rows and \<open>uniqueCount\<close> 0. On the one row
  \<open>{a: null, b: "x"}\<close> the counts of column \<open>a\<close> are as claimed and nothing is raised,
  but its type is boolean: the first test of the inference holds of every value of an
  empty list.
\<close>

theorem empty_column_type:
  "detectDataTypes sampleHost [[(''a'', JNull), (''b'', JStr ''x'')]] [''a'', ''b'']
     = [\<lparr>name = ''a'', type = TBoolean, nullable = True, unique = True,
         stats = Some \<lparr>min_stat = None, max_stat = None, avg = None,
                       nullCount = 1, uniqueCount = 0\<rparr>\<rparr>,
        \<lparr>name = ''b'', type = TString, nullable = False, unique = True,
         stats = Some \<lparr>min_stat = None, max_stat = None, avg = None,
                       nullCount = 0, uniqueCount = 1\<rparr>\<rparr>]
   \<and> columns (transformData sampleHost [[(''a'', JNull), (''b'', JStr ''x'')]] [''a'', ''b''])
     = detectDataTypes sampleHost [[(''a'', JNull), (''b'', JStr ''x'')]] [''a'', ''b'']"
  by code_simp

section \<open>Imputation\<close>

text \<open>
  C3. The claim: \<open>imputeMissingData\<close> leaves every row of the array it is given as
  it was. Mean imputation over \<open>[{a:1},{a:null}]\<close> returns an array of the same two
  row objects, and the second row of the caller, null before the call, holds 1 after it.
\<close>

theorem original_rows_mutated:
  "cell sharedRows ''a'' 1 = JNull
   \<and> (case imputeMissingData sampleHost [0, 1] [columnA]
              [\<lparr>column = ''a'', strategyMethod = Mean, customValue = JUndefined\<rparr>] sharedRows of
         (h', imputedData, results) \<Rightarrow> imputedData = [0, 1] \<and> cell h' ''a'' 1 = JNum (Fin 1))"
  by code_simp

text \<open>
  C6. On the rows \<open>[{a:"1"},{a:"2"},{a:null},{a:"4"}]\<close> median imputation of
  column \<open>a\<close> writes the number 2 into the null cell, and interpolation writes 3 into
  it; the other cells stay as they are.
\<close>

theorem median_and_interpolation_example:
  "map (cell (imputeWithMedian [0, 1, 2, 3] ''a'' exampleRows) ''a'') [0, 1, 2, 3]
     = [JStr ''1'', JStr ''2'', JNum (Fin 2), JStr ''4'']
   \<and> map (cell (imputeWithInterpolation [0, 1, 2, 3] ''a'' exampleRows) ''a'') [0, 1, 2, 3]
     = [JStr ''1'', JStr ''2'', JNum (Fin 3), JStr ''4'']"
  by code_simp

subsection \<open>Forward and backward fill\<close>

lemma fillStep_keeps:
  assumes "lastv = JNull \<or> carries lastv" "filled h col b"
  shows "filled (fst (fillStep col a (h, lastv))) col b"
  using assms by (auto simp: fillStep_def filled_def carries_def cell_assign)

lemma fillStep_last:
  assumes "lastv = JNull \<or> carries lastv"
  shows "snd (fillStep col a (h, lastv)) = JNull \<or> carries (snd (fillStep col a (h, lastv)))"
  using assms by (auto simp: fillStep_def carries_def)

lemma fillStep_carries:
  assumes "carries lastv \<or> filled h col a" "lastv = JNull \<or> carries lastv"
  shows "carries (snd (fillStep col a (h, lastv))) \<and> filled (fst (fillStep col a (h, lastv))) col a"
  using assms by (auto simp: fillStep_def carries_def filled_def cell_assign)

lemma fold_fillStep_keeps:
  assumes "lastv = JNull \<or> carries lastv" "filled h col b"
  shows "filled (fst (fold (fillStep col) xs (h, lastv))) col b"
  using assms
proof (induction xs arbitrary: h lastv)
  case Nil
  then show ?case by simp
next
  case (Cons a xs)
  obtain h1 l1 where st: "fillStep col a (h, lastv) = (h1, l1)" by (cases "fillStep col a (h, lastv)")
  have "l1 = JNull \<or> carries l1" using fillStep_last[OF Cons.prems(1), of col a h] st by simp
  moreover have "filled h1 col b" using fillStep_keeps[OF Cons.prems, of a] st by simp
  ultimately show ?case using Cons.IH st by simp
qed

lemma fold_fillStep_all:
  assumes "carries lastv"
  shows "\<forall>a \<in> set xs. filled (fst (fold (fillStep col) xs (h, lastv))) col a"
  using assms
proof (induction xs arbitrary: h lastv)
  case Nil
  then show ?case by simp
next
  case (Cons a xs)
  obtain h1 l1 where st: "fillStep col a (h, lastv) = (h1, l1)" by (cases "fillStep col a (h, lastv)")
  have c: "carries l1 \<and> filled h1 col a"
    using fillStep_carries[of lastv h col a] Cons.prems st by simp
  then have "filled (fst (fold (fillStep col) xs (h1, l1))) col a"
    using fold_fillStep_keeps[of l1 h1 col a xs] by simp
  moreover have "\<forall>b \<in> set xs. filled (fst (fold (fillStep col) xs (h1, l1))) col b"
    using Cons.IH c by simp
  ultimately show ?case using st by simp
qed

text \<open>Once a filled cell has been met, every later row is filled: so is the last one.\<close>

lemma fold_fillStep_end:
  assumes "lastv = JNull \<or> carries lastv" "\<exists>a \<in> set xs. filled h col a" "xs \<noteq> []"
  shows "filled (fst (fold (fillStep col) xs (h, lastv))) col (last xs)"
  using assms
proof (induction xs arbitrary: h lastv)
  case Nil
  then show ?case by simp
next
  case (Cons a xs)
  obtain h1 l1 where st: "fillStep col a (h, lastv) = (h1, l1)" by (cases "fillStep col a (h, lastv)")
  have l1: "l1 = JNull \<or> carries l1" using fillStep_last[OF Cons.prems(1), of col a h] st by simp
  show ?case
  proof (cases "xs = []")
    case True
    then have "filled h col a" using Cons.prems(2) by simp
    then have "filled h1 col a" using fillStep_keeps[OF Cons.prems(1), of h col a a] st by simp
    then show ?thesis using True st by simp
  next
    case False
    show ?thesis
    proof (cases "filled h col a \<or> carries lastv")
      case True
      then have "carries l1" using fillStep_carries[of lastv h col a] Cons.prems(1) st by auto
      then have "\<forall>b \<in> set xs. filled (fst (fold (fillStep col) xs (h1, l1))) col b"
        by (rule fold_fillStep_all)
      then show ?thesis using False st by simp
    next
      case F2: False
      then have "lastv = JNull" "\<not> filled h col a" using Cons.prems(1) by auto
      then have same: "h1 = h" using st by (auto simp: fillStep_def filled_def)
      have "\<exists>b \<in> set xs. filled h col b" using Cons.prems(2) F2 by auto
      then show ?thesis using Cons.IH[OF l1, of h1] same False st by simp
    qed
  qed
qed

text \<open>
  C8. Forward fill followed by backward fill of the same column leaves no cell of the
  column null or empty, unless every cell of the column was null or empty before. The
  rows may share row objects.
\<close>

theorem forward_then_backward_fill:
  assumes "\<exists>a \<in> set rows. \<not> isNullOrEmpty (cell h col a)"
  shows "\<forall>a \<in> set rows.
           \<not> isNullOrEmpty (cell (imputeWithBackwardFill rows col (imputeWithForwardFill rows col h)) col a)"
proof -
  define h1 where "h1 = imputeWithForwardFill rows col h"
  from assms have ne: "rows \<noteq> []" by auto
  have ex: "\<exists>a \<in> set rows. filled h col a" using assms by (simp add: filled_def)
  have endf: "filled h1 col (last rows)"
    unfolding h1_def imputeWithForwardFill_def
    by (rule fold_fillStep_end) (use ex ne in auto)
  obtain ys where rv: "rev rows = last rows # ys"
    using ne by (metis rev.simps(2) snoc_eq_iff_butlast append_butlast_last_id rev_rev_ident rev_singleton_conv rev_append)
  obtain h2 l2 where st: "fillStep col (last rows) (h1, JNull) = (h2, l2)"
    by (cases "fillStep col (last rows) (h1, JNull)")
  have c: "carries l2 \<and> filled h2 col (last rows)"
    using fillStep_carries[of JNull h1 col "last rows"] endf st by simp
  have all_ys: "\<forall>b \<in> set ys. filled (fst (fold (fillStep col) ys (h2, l2))) col b"
    using c by (intro fold_fillStep_all) simp
  have hd_ok: "filled (fst (fold (fillStep col) ys (h2, l2))) col (last rows)"
    using c by (intro fold_fillStep_keeps) auto
  have res: "imputeWithBackwardFill rows col h1 = fst (fold (fillStep col) ys (h2, l2))"
    by (simp add: imputeWithBackwardFill_def rv st)
  have "set rows = insert (last rows) (set ys)"
    using rv by (metis list.simps(15) set_rev)
  then show ?thesis
    using all_ys hd_ok res by (auto simp: filled_def h1_def)
qed

theorem forward_then_backward_fill_witness:
  "\<not> isNullOrEmpty (cell gapRows ''a'' 1)
   \<and> list_all (\<lambda>a. \<not> isNullOrEmpty
         (cell (imputeWithBackwardFill [0, 1, 2] ''a'' (imputeWithForwardFill [0, 1, 2] ''a'' gapRows)) ''a'' a))
       [0, 1, 2]"
proof -
  have one: "\<not> isNullOrEmpty (cell gapRows ''a'' 1)"
    by code_simp
  then have "\<exists>a \<in> set [0, 1, 2]. \<not> isNullOrEmpty (cell gapRows ''a'' a)"
    by simp
  from forward_then_backward_fill [OF this] one show ?thesis
    by (simp add: list_all_iff)
qed

subsection \<open>Mode imputation\<close>

lemma isNullOrEmpty_missingValue: "isNullOrEmpty v = missingValue v"
  by (cases v) (auto simp: missingValue_def)

lemma fillEmpty_cell:
  "cell (fillEmpty col v rows h) col a
     = (if a \<in> set rows \<and> missingValue (cell h col a) then v else cell h col a)"
proof (induction rows arbitrary: h)
  case Nil
  then show ?case by (simp add: fillEmpty_def)
next
  case (Cons x xs)
  define h1 where "h1 = (if isNullOrEmpty (cell h col x) then assign col v x h else h)"
  have step: "fillEmpty col v (x # xs) h = fillEmpty col v xs h1"
    by (simp add: fillEmpty_def h1_def)
  have c1: "cell h1 col a = (if a = x \<and> missingValue (cell h col x) then v else cell h col a)"
    by (simp add: h1_def cell_def assign_def getProp_def setProp_def update_conv'
                  isNullOrEmpty_missingValue)
  show ?case
    unfolding step Cons.IH c1 by auto
qed

text \<open>A table that holds counts only, as the table of a column without inherited names does.\<close>

lemma notPositive_counts:
  "notPositive (jsub (talliedNumber (Count b)) (talliedNumber (Count a))) = (b \<le> a)"
  by (simp add: notPositive_def jsub_def ofNat_def talliedNumber_def not_less)

lemma insertSorted_hd:
  "insertSorted cmp x ys \<noteq> []
   \<and> hd (insertSorted cmp x ys) = (if ys = [] \<or> notPositive (cmp x (hd ys)) then x else hd ys)"
  by (cases ys) auto

lemma sortWith_Cons: "sortWith cmp (x # xs) = insertSorted cmp x (sortWith cmp xs)"
  by (simp add: sortWith_def)

lemma Count_countOf: "t \<noteq> FunctionText \<Longrightarrow> Count (countOf t) = t"
  by (cases t) (simp_all add: countOf_def)

lemma sortWith_counts_hd:
  assumes "es \<noteq> []" and "\<forall>e \<in> set es. snd e \<noteq> FunctionText"
  shows "sortWith (\<lambda>e1 e2. jsub (talliedNumber (snd e2)) (talliedNumber (snd e1))) es \<noteq> []
         \<and> hd (sortWith (\<lambda>e1 e2. jsub (talliedNumber (snd e2)) (talliedNumber (snd e1))) es)
             = hd (filter (topCount es) es)
         \<and> filter (topCount es) es \<noteq> []"
  using assms
proof (induction es)
  case Nil
  then show ?case by simp
next
  case (Cons x xs)
  let ?cmp = "\<lambda>e1 e2. jsub (talliedNumber (snd e2)) (talliedNumber (snd (e1 :: 'a \<times> tallied)))"
  show ?case
  proof (cases "xs = []")
    case True
    then show ?thesis by (simp add: sortWith_def topCount_def)
  next
    case False
    define m where "m = hd (filter (topCount xs) xs)"
    have ih: "sortWith ?cmp xs \<noteq> []" "hd (sortWith ?cmp xs) = m" "filter (topCount xs) xs \<noteq> []"
      using Cons.IH Cons.prems(2) False by (simp_all add: m_def)
    have "m \<in> set (filter (topCount xs) xs)"
      unfolding m_def using ih(3) by (rule hd_in_set)
    then have m: "m \<in> set xs" "topCount xs m" by auto
    have cx: "Count (countOf (snd x)) = snd x" and cm: "Count (countOf (snd m)) = snd m"
      using Cons.prems(2) m(1) by (simp_all add: Count_countOf)
    have "notPositive (?cmp x m) = (countOf (snd m) \<le> countOf (snd x))"
      using notPositive_counts[of "countOf (snd m)" "countOf (snd x)"] by (simp only: cx cm)
    then have hd1: "hd (sortWith ?cmp (x # xs)) = (if countOf (snd m) \<le> countOf (snd x) then x else m)"
      using ih by (simp add: sortWith_Cons insertSorted_hd)
    have ne1: "sortWith ?cmp (x # xs) \<noteq> []"
      by (simp add: sortWith_Cons insertSorted_hd)
    show ?thesis
    proof (cases "countOf (snd m) \<le> countOf (snd x)")
      case True
      then have "topCount (x # xs) x"
        using m(2) by (auto simp: topCount_def intro: order_trans)
      then show ?thesis using hd1 ne1 True by simp
    next
      case F: False
      then have nx: "\<not> topCount (x # xs) x"
        using m(1) by (auto simp: topCount_def)
      have "filter (topCount (x # xs)) xs = filter (topCount xs) xs"
      proof (rule filter_cong[OF refl])
        fix e assume "e \<in> set xs"
        show "topCount (x # xs) e = topCount xs e"
        proof
          assume "topCount xs e"
          then have "countOf (snd m) \<le> countOf (snd e)" using m(1) by (simp add: topCount_def)
          then show "topCount (x # xs) e" using F \<open>topCount xs e\<close> by (auto simp: topCount_def)
        qed (simp add: topCount_def)
      qed
      then show ?thesis using hd1 ne1 F nx ih(3) by (simp add: m_def)
    qed
  qed
qed

lemma map_fst_insort_key:
  "map fst (insort_key (\<lambda>e. f (fst e)) x xs) = insort_key f (fst x) (map fst xs)"
  by (induction xs) auto

lemma map_fst_sort_key:
  "map fst (sort_key (\<lambda>e. f (fst e)) xs) = sort_key f (map fst xs)"
  by (induction xs) (auto simp: map_fst_insort_key)

lemma map_fst_entries:
  "map fst (entries obj)
     = sort_key (digitsVal 10) (filter isArrayIndex (map fst obj))
       @ filter (\<lambda>k. \<not> isArrayIndex k) (map fst obj)"
  by (simp add: entries_def map_fst_sort_key filter_map comp_def)

lemma set_entries: "set (entries obj) = set obj"
  by (auto simp: entries_def)

text \<open>
  Tabulating a key that is no inherited name: its count goes up by one, from 0 when the
  table has no such key.
\<close>

lemma map_of_counts:
  assumes "\<forall>e \<in> set t. snd e \<noteq> FunctionText" and "map_of t k = Some v"
  shows "v = Count (countOf v)"
proof -
  have "(k, v) \<in> set t" using assms(2) by (rule map_of_SomeD)
  then have "v \<noteq> FunctionText" using assms(1) by auto
  then show ?thesis by (simp add: Count_countOf)
qed

lemma tally_plain:
  assumes "\<not> inheritedName k" and "\<forall>e \<in> set t. snd e \<noteq> FunctionText"
  shows "tally k t
           = AList.update k (Count ((case map_of t k of None \<Rightarrow> 0 | Some v \<Rightarrow> countOf v) + 1)) t"
proof (cases "map_of t k")
  case None
  then show ?thesis using assms(1) by (simp add: tally_def inheritedName_def)
next
  case (Some v)
  then have "v = Count (countOf v)" using assms(2) by (rule map_of_counts[rotated])
  then obtain c where "v = Count c" ..
  then show ?thesis using Some assms(1) by (simp add: tally_def inheritedName_def countOf_def)
qed

lemma set_update_subset: "set (AList.update k v t) \<subseteq> insert (k, v) (set t)"
  by (induction t) auto

lemma tally_counts:
  assumes "\<not> inheritedName k" and "\<forall>e \<in> set t. snd e \<noteq> FunctionText"
  shows "\<forall>e \<in> set (tally k t). snd e \<noteq> FunctionText"
  unfolding tally_plain[OF assms] using assms(2) set_update_subset by fastforce

lemma map_of_tally:
  assumes "\<not> inheritedName k" and "\<forall>e \<in> set t. snd e \<noteq> FunctionText"
  shows "map_of (tally k t)
           = (map_of t)(k \<mapsto> Count ((case map_of t k of None \<Rightarrow> 0 | Some v \<Rightarrow> countOf v) + 1))"
  unfolding tally_plain[OF assms] by (simp add: update_conv')

lemma fold_tally_counts:
  assumes "\<forall>k \<in> set ks. \<not> inheritedName k" and "\<forall>e \<in> set t. snd e \<noteq> FunctionText"
  shows "\<forall>e \<in> set (fold tally ks t). snd e \<noteq> FunctionText"
  using assms
proof (induction ks arbitrary: t)
  case Nil
  then show ?case by simp
next
  case (Cons x xs)
  have x: "\<not> inheritedName x" and xs: "\<forall>k \<in> set xs. \<not> inheritedName k"
    using Cons.prems(1) by simp_all
  have "\<forall>e \<in> set (tally x t). snd e \<noteq> FunctionText"
    using x Cons.prems(2) by (rule tally_counts)
  then show ?case using Cons.IH[OF xs] by simp
qed

lemma map_of_fold_tally:
  assumes "\<forall>k \<in> set ks. \<not> inheritedName k" and "\<forall>e \<in> set t. snd e \<noteq> FunctionText"
  shows "map_of (fold tally ks t) k
     = (if k \<in> set ks
        then Some (Count ((case map_of t k of None \<Rightarrow> 0 | Some v \<Rightarrow> countOf v) + count_list ks k))
        else map_of t k)"
  using assms
proof (induction ks arbitrary: t)
  case Nil
  then show ?case by simp
next
  case (Cons x xs)
  have x: "\<not> inheritedName x" and xs: "\<forall>k \<in> set xs. \<not> inheritedName k"
    using Cons.prems(1) by simp_all
  have t': "\<forall>e \<in> set (tally x t). snd e \<noteq> FunctionText"
    using x Cons.prems(2) by (rule tally_counts)
  show ?case
    by (simp add: Cons.IH[OF xs t'] map_of_tally[OF x Cons.prems(2)] countOf_def
             split: option.splits)
qed

lemma keys_tally:
  "map fst (tally x t)
     = (if x = ''__proto__'' \<or> x \<in> set (map fst t) then map fst t else map fst t @ [x])"
  by (simp add: tally_def update_keys split: option.splits tallied.splits)

lemma distinct_fold_tally:
  "distinct (map fst t) \<Longrightarrow> distinct (map fst (fold tally ks t))"
proof (induction ks arbitrary: t)
  case Nil
  then show ?case by simp
next
  case (Cons x xs)
  have "distinct (map fst (tally x t))"
    using Cons.prems by (simp add: keys_tally del: set_map)
  then show ?case using Cons.IH by simp
qed

lemma keys_fold_tally:
  assumes "''__proto__'' \<notin> set ks"
  shows "map fst (fold tally ks t) = map fst t @ filter (\<lambda>k. k \<notin> set (map fst t)) (firstSeen ks)"
  using assms
proof (induction ks arbitrary: t)
  case Nil
  then show ?case by simp
next
  case (Cons x xs)
  have x: "x \<noteq> ''__proto__''" and xs: "''__proto__'' \<notin> set xs"
    using Cons.prems by auto
  show ?case
  proof (cases "x \<in> set (map fst t)")
    case True
    then have "map fst (tally x t) = map fst t" by (simp only: keys_tally if_True simp_thms)
    moreover have "filter (\<lambda>k. k \<notin> set (map fst t)) (filter (\<lambda>y. y \<noteq> x) (firstSeen xs))
                   = filter (\<lambda>k. k \<notin> set (map fst t)) (firstSeen xs)"
      using True by (auto intro: filter_cong)
    ultimately show ?thesis using True by (simp add: Cons.IH[OF xs])
  next
    case False
    then have k: "map fst (tally x t) = map fst t @ [x]"
      using x by (simp only: keys_tally simp_thms if_False)
    have "filter (\<lambda>k. k \<notin> set (map fst t @ [x])) (firstSeen xs)
          = filter (\<lambda>k. k \<notin> set (map fst t)) (filter (\<lambda>y. y \<noteq> x) (firstSeen xs))"
      by (auto intro: filter_cong)
    then show ?thesis using False by (simp add: Cons.IH[OF xs] k)
  qed
qed

lemma frequencyTable_fold:
  "frequencyTable env vals = fold tally (map (ToString env) vals) []"
  by (simp add: frequencyTable_def fold_map comp_def)

lemma plain_keys:
  assumes "list_all (\<lambda>v. \<not> inheritedName (ToString env v)) vals"
  shows "\<forall>k \<in> set (map (ToString env) vals). \<not> inheritedName k"
    and "''__proto__'' \<notin> set (map (ToString env) vals)"
  using assms by (auto simp: list_all_iff inheritedName_def)

lemma frequencyTable_keys:
  assumes "list_all (\<lambda>v. \<not> inheritedName (ToString env v)) vals"
  shows "map fst (frequencyTable env vals) = firstSeen (map (ToString env) vals)"
  using keys_fold_tally[OF plain_keys(2)[OF assms], of "[]"] by (simp add: frequencyTable_fold)

lemma frequencyTable_counts:
  assumes "list_all (\<lambda>v. \<not> inheritedName (ToString env v)) vals"
  shows "\<forall>e \<in> set (frequencyTable env vals). snd e \<noteq> FunctionText"
  unfolding frequencyTable_fold by (rule fold_tally_counts[OF plain_keys(1)[OF assms]]) simp

lemma set_firstSeen: "set (firstSeen xs) = set xs"
  by (induction xs) auto

lemma frequencyTable_entry:
  assumes "list_all (\<lambda>v. \<not> inheritedName (ToString env v)) vals"
    and "e \<in> set (frequencyTable env vals)"
  shows "fst e \<in> set (map (ToString env) vals)
         \<and> snd e = Count (count_list (map (ToString env) vals) (fst e))"
proof -
  have d: "distinct (map fst (frequencyTable env vals))"
    by (simp add: frequencyTable_fold distinct_fold_tally)
  have "(fst e, snd e) \<in> set (frequencyTable env vals)" using assms(2) by simp
  then have "map_of (frequencyTable env vals) (fst e) = Some (snd e)"
    using d by (simp only: map_of_eq_Some_iff)
  then have "map_of (fold tally (map (ToString env) vals) []) (fst e) = Some (snd e)"
    by (simp only: frequencyTable_fold)
  then show ?thesis
    unfolding map_of_fold_tally[OF plain_keys(1)[OF assms(1)], of "[]", simplified]
    by (simp split: if_splits)
qed

lemma frequencyTable_key:
  assumes "list_all (\<lambda>v. \<not> inheritedName (ToString env v)) vals"
    and "k \<in> set (map (ToString env) vals)"
  shows "(k, Count (count_list (map (ToString env) vals) k)) \<in> set (frequencyTable env vals)"
proof -
  have "map_of (frequencyTable env vals) k = Some (Count (count_list (map (ToString env) vals) k))"
    unfolding frequencyTable_fold
      map_of_fold_tally[OF plain_keys(1)[OF assms(1)], of "[]", simplified]
    using assms(2) by simp
  then show ?thesis by (rule map_of_SomeD)
qed

lemma topCount_frequencyTable:
  assumes "list_all (\<lambda>v. \<not> inheritedName (ToString env v)) vals"
    and "e \<in> set (frequencyTable env vals)"
  shows "topCount (entries (frequencyTable env vals)) e = mostFrequent (map (ToString env) vals) (fst e)"
proof
  assume t: "topCount (entries (frequencyTable env vals)) e"
  show "mostFrequent (map (ToString env) vals) (fst e)"
    unfolding mostFrequent_def list_all_iff
  proof
    fix k assume "k \<in> set (map (ToString env) vals)"
    from frequencyTable_key[OF assms(1) this] t
    have "count_list (map (ToString env) vals) k \<le> countOf (snd e)"
      by (auto simp: topCount_def set_entries countOf_def)
    then show "count_list (map (ToString env) vals) k \<le> count_list (map (ToString env) vals) (fst e)"
      using frequencyTable_entry[OF assms] by (simp add: countOf_def)
  qed
next
  assume m: "mostFrequent (map (ToString env) vals) (fst e)"
  show "topCount (entries (frequencyTable env vals)) e"
    unfolding topCount_def set_entries
  proof
    fix e' assume e': "e' \<in> set (frequencyTable env vals)"
    from frequencyTable_entry[OF assms(1) e'] frequencyTable_entry[OF assms] m
    show "countOf (snd e') \<le> countOf (snd e)"
      by (auto simp: mostFrequent_def list_all_iff countOf_def)
  qed
qed

text \<open>
  The mode of a non-empty column without inherited names, as the table order of its
  keys decides it.
\<close>

lemma modeOf_frequencyTable:
  assumes "vals \<noteq> []" and "list_all (\<lambda>v. \<not> inheritedName (ToString env v)) vals"
  shows "modeOf (frequencyTable env vals) = Inr (keyOrderMode (map (ToString env) vals))
         \<and> filter (mostFrequent (map (ToString env) vals)) (keyOrder (map (ToString env) vals)) \<noteq> []"
proof -
  let ?tbl = "frequencyTable env vals"
  let ?ks = "map (ToString env) vals"
  let ?cmp = "\<lambda>e1 e2. jsub (talliedNumber (snd e2)) (talliedNumber (snd (e1 :: string \<times> tallied)))"
  have "set ?ks \<noteq> {}" using assms(1) by simp
  then have "set (map fst ?tbl) \<noteq> {}" by (simp add: frequencyTable_keys[OF assms(2)] set_firstSeen)
  then have ne: "entries ?tbl \<noteq> []" using set_entries[of ?tbl] by auto
  have cs: "\<forall>e \<in> set (entries ?tbl). snd e \<noteq> FunctionText"
    using frequencyTable_counts[OF assms(2)] by (simp only: set_entries)
  from sortWith_counts_hd[OF ne cs]
  have s: "sortWith ?cmp (entries ?tbl) \<noteq> []"
       "hd (sortWith ?cmp (entries ?tbl)) = hd (filter (topCount (entries ?tbl)) (entries ?tbl))"
       "filter (topCount (entries ?tbl)) (entries ?tbl) \<noteq> []"
    by simp_all
  have f: "filter (topCount (entries ?tbl)) (entries ?tbl)
           = filter (\<lambda>e. mostFrequent ?ks (fst e)) (entries ?tbl)"
    by (rule filter_cong[OF refl]) (simp add: set_entries topCount_frequencyTable[OF assms(2)])
  have ko: "map fst (entries ?tbl) = keyOrder ?ks"
    by (simp only: map_fst_entries frequencyTable_keys[OF assms(2)] keyOrder_def)
  have mf: "map fst (filter (\<lambda>e. mostFrequent ?ks (fst e)) (entries ?tbl))
            = filter (mostFrequent ?ks) (keyOrder ?ks)"
    by (simp add: ko[symmetric] filter_map comp_def)
  have "modeOf ?tbl = Inr (fst (hd (sortWith ?cmp (entries ?tbl))))"
    using s(1) by (cases "sortWith ?cmp (entries ?tbl)") (simp_all add: modeOf_def)
  also have "fst (hd (sortWith ?cmp (entries ?tbl)))
             = hd (map fst (filter (\<lambda>e. mostFrequent ?ks (fst e)) (entries ?tbl)))"
    using s(3) by (simp add: s(2) f hd_map)
  finally have "modeOf ?tbl = Inr (keyOrderMode ?ks)"
    by (simp add: mf keyOrderMode_def)
  moreover have "filter (mostFrequent ?ks) (keyOrder ?ks) \<noteq> []"
    using s(3) unfolding f mf[symmetric] by simp
  ultimately show ?thesis by simp
qed

lemma set_keyOrder: "set (keyOrder ks) = set ks"
  by (auto simp: keyOrder_def set_firstSeen)

lemma keyOrderMode_most:
  assumes "vals \<noteq> []" and "list_all (\<lambda>v. \<not> inheritedName (ToString env v)) vals"
  shows "keyOrderMode (map (ToString env) vals) \<in> set (map (ToString env) vals)
         \<and> mostFrequent (map (ToString env) vals) (keyOrderMode (map (ToString env) vals))"
proof -
  let ?ks = "map (ToString env) vals"
  have "filter (mostFrequent ?ks) (keyOrder ?ks) \<noteq> []"
    using modeOf_frequencyTable[OF assms] by simp
  then have "keyOrderMode ?ks \<in> set (filter (mostFrequent ?ks) (keyOrder ?ks))"
    unfolding keyOrderMode_def by (rule hd_in_set)
  then show ?thesis by (simp add: set_keyOrder)
qed

lemma filter_firstSeen: "filter P (firstSeen xs) = firstSeen (filter P xs)"
proof (induction xs)
  case Nil
  then show ?case by simp
next
  case (Cons x xs)
  have "\<not> P x \<Longrightarrow> filter P (filter (\<lambda>y. y \<noteq> x) (firstSeen xs)) = filter P (firstSeen xs)"
    by (auto intro: filter_cong)
  moreover have "filter P (filter (\<lambda>y. y \<noteq> x) (firstSeen xs)) = filter (\<lambda>y. y \<noteq> x) (filter P (firstSeen xs))"
    by (auto intro: filter_cong)
  ultimately show ?case using Cons.IH by auto
qed

lemma hd_firstSeen: "hd (firstSeen xs) = hd xs"
  by (cases xs) simp_all

lemma keyOrderMode_first:
  assumes "list_all (\<lambda>k. \<not> isArrayIndex k) ks"
  shows "keyOrderMode ks = firstEncounteredMode ks"
proof -
  have "filter isArrayIndex (firstSeen ks) = []"
    using assms by (simp add: filter_empty_conv set_firstSeen list_all_iff)
  moreover have "filter (\<lambda>k. \<not> isArrayIndex k) (firstSeen ks) = firstSeen ks"
    using assms by (simp add: filter_id_conv set_firstSeen list_all_iff)
  ultimately have "keyOrder ks = firstSeen ks" by (simp add: keyOrder_def)
  then show ?thesis
    by (simp add: keyOrderMode_def firstEncounteredMode_def filter_firstSeen hd_firstSeen)
qed

lemma imputeWithMode_result:
  assumes "vals = filter (\<lambda>v. v \<noteq> JNull \<and> v \<noteq> JUndefined \<and> v \<noteq> JStr []) (map (cell h col) rows)"
    and "vals \<noteq> []"
    and "list_all (\<lambda>v. \<not> inheritedName (ToString env v)) vals"
  shows "imputeWithMode env rows col h
           = Inr (fillEmpty col (JStr (keyOrderMode (map (ToString env) vals))) rows h)"
proof -
  have v: "modeValues h rows col = vals"
    by (simp add: modeValues_def assms(1))
  show ?thesis
    using assms(2) modeOf_frequencyTable[OF assms(2,3)]
    by (simp add: imputeWithMode_def Let_def v)
qed

text \<open>
  The name of an inherited function wins over a more frequent text. On
  \<open>[{a:"constructor"},{a:"x"},{a:"x"},{a:null}]\<close> the table holds a text under
  \<open>constructor\<close> and the count 2 under \<open>x\<close>; the comparator gives NaN, which the
  sort takes for 0, so the two entries stay in the order of the table and the null cell
  gets \<open>"constructor"\<close>.
\<close>

lemma inherited_function_name_wins:
  "(case imputeWithMode sampleHost [0, 1, 2, 3] ''a'' constructorRows of
      Inr h' \<Rightarrow> cell h' ''a'' 3 | Inl e \<Rightarrow> JUndefined) = JStr ''constructor''
   \<and> count_list (map (ToString sampleHost)
         (filter (\<lambda>v. v \<noteq> JNull \<and> v \<noteq> JUndefined \<and> v \<noteq> JStr [])
            (map (cell constructorRows ''a'') [0, 1, 2, 3]))) ''x'' = 2"
  by code_simp




text \<open>
  C5. The claim: mode imputation writes the most frequent value, and of several most
  frequent values the one met first. On \<open>[{a:"2"},{a:"1"},{a:null}]\<close> the two keys occur
  once each and \<open>"2"\<close> is met first, but the null cell gets \<open>"1"\<close>: the frequency table
  lists its array-index keys in ascending order before any other key.
\<close>

theorem mode_tie_counterexample:
  "(case imputeWithMode sampleHost [0, 1, 2] ''a'' tieRows of
      Inr h' \<Rightarrow> cell h' ''a'' 2 | Inl e \<Rightarrow> JUndefined) = JStr ''1''
   \<and> firstEncounteredMode (map (ToString sampleHost) (modeValues tieRows [0, 1, 2] ''a'')) = ''2''"
  by code_simp

text \<open>
  C5, amended. Take a column whose name is not one that a row inherits from
  \<open>Object.prototype\<close>, with a value that is not null, undefined or the empty string,
  and where the text of no such value is a name that the frequency table inherits. Then
  mode imputation writes into every null or empty cell the text of a most frequent
  value; of several most frequent texts it writes the first in the order of the
  frequency table (array-index keys in ascending numeric order, then the other keys in
  the order they were first met). When no text is an array index, that is the most
  frequent text met first.
\<close>

theorem mode_tie_break:
  assumes "vals = filter (\<lambda>v. v \<noteq> JNull \<and> v \<noteq> JUndefined \<and> v \<noteq> JStr []) (map (cell h col) rows)"
    and "vals \<noteq> []"
    and "list_all (\<lambda>v. \<not> inheritedName (ToString env v)) vals"
    and "\<not> inheritedName col"
    and "keys = map (ToString env) vals"
  shows "\<exists>h'. imputeWithMode env rows col h = Inr h'
           \<and> (\<forall>a \<in> set rows.
                 cell h' col a
                   = (if missingValue (cell h col a) then JStr (keyOrderMode keys) else cell h col a))
           \<and> keyOrderMode keys \<in> set keys
           \<and> mostFrequent keys (keyOrderMode keys)
           \<and> (list_all (\<lambda>k. \<not> isArrayIndex k) keys
                \<longrightarrow> keyOrderMode keys = firstEncounteredMode keys)"
  unfolding assms(5)
  using imputeWithMode_result[OF assms(1,2,3)] keyOrderMode_most[OF assms(2,3)]
  by (simp add: fillEmpty_cell keyOrderMode_first)

theorem mode_tie_break_witness:
  "[JStr ''b'', JStr ''a'']
     = filter (\<lambda>v. v \<noteq> JNull \<and> v \<noteq> JUndefined \<and> v \<noteq> JStr []) (map (cell wordRows ''a'') [0, 1, 2])
   \<and> list_all (\<lambda>v. \<not> inheritedName (ToString sampleHost v)) [JStr ''b'', JStr ''a'']
   \<and> \<not> inheritedName ''a''
   \<and> [''b'', ''a''] = map (ToString sampleHost) [JStr ''b'', JStr ''a'']
   \<and> list_all (\<lambda>k. \<not> isArrayIndex k) [''b'', ''a'']
   \<and> firstEncounteredMode [''b'', ''a''] = ''b''
   \<and> missingValue (cell wordRows ''a'' 2)
   \<and> (\<exists>h'. imputeWithMode sampleHost [0, 1, 2] ''a'' wordRows = Inr h'
            \<and> cell h' ''a'' 2 = JStr ''b'')"
proof -
  have vals: "[JStr ''b'', JStr ''a'']
     = filter (\<lambda>v. v \<noteq> JNull \<and> v \<noteq> JUndefined \<and> v \<noteq> JStr []) (map (cell wordRows ''a'') [0, 1, 2])"
    by code_simp
  have ne: "[JStr ''b'', JStr ''a''] \<noteq> []"
    by simp
  have plain: "list_all (\<lambda>v. \<not> inheritedName (ToString sampleHost v)) [JStr ''b'', JStr ''a'']"
    by code_simp
  have col: "\<not> inheritedName ''a''"
    by code_simp
  have keys: "[''b'', ''a''] = map (ToString sampleHost) [JStr ''b'', JStr ''a'']"
    by code_simp
  have words: "list_all (\<lambda>k. \<not> isArrayIndex k) [''b'', ''a'']"
    by code_simp
  have first: "firstEncounteredMode [''b'', ''a''] = ''b''"
    by code_simp
  have emp: "missingValue (cell wordRows ''a'' 2)"
    by (simp add: missingValue_def wordRows_def cell_def getProp_def)
  from mode_tie_break [OF vals ne plain col keys] words first emp
  have "\<exists>h'. imputeWithMode sampleHost [0, 1, 2] ''a'' wordRows = Inr h'
            \<and> cell h' ''a'' 2 = JStr ''b''"
    by fastforce
  then show ?thesis using vals plain col keys words first emp by simp
qed


section \<open>Duplicate removal\<close>

lemma dedupStep_inv:
  assumes "set seen = JSONstringify env ` set u" "distinct (map (JSONstringify env) u)"
    "dedupStep env r (seen, u, n) = (seen', u', n')"
  shows "set seen' = JSONstringify env ` set u' \<and> distinct (map (JSONstringify env) u')"
  using assms by (auto simp: dedupStep_def Let_def split: if_splits)

lemma fold_dedupStep_inv:
  assumes "set seen = JSONstringify env ` set u" "distinct (map (JSONstringify env) u)"
    "fold (dedupStep env) rows (seen, u, n) = (seen', u', n')"
  shows "set seen' = JSONstringify env ` set u' \<and> distinct (map (JSONstringify env) u')"
  using assms
proof (induction rows arbitrary: seen u n)
  case Nil
  then show ?case by simp
next
  case (Cons r rows)
  obtain s1 u1 n1 where st: "dedupStep env r (seen, u, n) = (s1, u1, n1)"
    by (cases "dedupStep env r (seen, u, n)") auto
  from dedupStep_inv[OF Cons.prems(1,2) st]
  have "set s1 = JSONstringify env ` set u1" "distinct (map (JSONstringify env) u1)" by simp_all
  then show ?case using Cons.IH[of s1 u1 n1] Cons.prems(3) st by simp
qed

lemma removeDuplicates_distinct:
  "distinct (map (JSONstringify env) (fst (removeDuplicates env rows)))"
proof -
  obtain s u n where st: "fold (dedupStep env) rows ([], [], 0) = (s, u, n)"
    by (cases "fold (dedupStep env) rows ([], [], 0)") auto
  from fold_dedupStep_inv[OF _ _ st] have "distinct (map (JSONstringify env) u)" by simp
  then show ?thesis by (simp add: removeDuplicates_def st)
qed

lemma fold_dedupStep_distinct:
  assumes "distinct (map (JSONstringify env) rows)"
    "JSONstringify env ` set rows \<inter> set seen = {}"
  shows "fold (dedupStep env) rows (seen, u, n) = (rev (map (JSONstringify env) rows) @ seen, u @ rows, n)"
  using assms
proof (induction rows arbitrary: seen u)
  case Nil
  then show ?case by simp
next
  case (Cons r rows)
  have fresh: "JSONstringify env r \<notin> set seen" using Cons.prems(2) by auto
  have step: "dedupStep env r (seen, u, n) = (JSONstringify env r # seen, u @ [r], n)"
    using fresh by (simp add: dedupStep_def Let_def)
  have "JSONstringify env ` set rows \<inter> set (JSONstringify env r # seen) = {}"
    using Cons.prems by auto
  moreover have "distinct (map (JSONstringify env) rows)" using Cons.prems(1) by simp
  ultimately show ?case using Cons.IH[of "JSONstringify env r # seen" "u @ [r]"] step by simp
qed

lemma removeDuplicates_of_distinct:
  assumes "distinct (map (JSONstringify env) rows)"
  shows "removeDuplicates env rows = (rows, 0)"
  using fold_dedupStep_distinct[OF assms, of "[]" "[]" 0]
  by (simp add: removeDuplicates_def)

lemma transformData_data:
  "data (transformData env raw headers)
     = fst (removeDuplicates env
              (cleanData env (nonEmptyRows raw) (detectDataTypes env (nonEmptyRows raw) headers)))"
  by (simp add: transformData_def Let_def split: prod.splits)

lemma transformData_duplicateRows:
  "duplicateRows (qualityReport (transformData env raw headers))
     = snd (removeDuplicates env
              (cleanData env (nonEmptyRows raw) (detectDataTypes env (nonEmptyRows raw) headers)))"
  by (simp add: transformData_def Let_def generateQualityReport_def split: prod.splits)

text \<open>
  C7. The claim: a second \<open>transformData\<close> on the data of a first one, with the same
  headers, reports no duplicate row. From \<open>[{a:"1"},{a:"true "}]\<close> the first run keeps
  two rows, \<open>"1"\<close> and \<open>"true"\<close>, in a column it types as string; the second run types the
  column as boolean, cleans both cells to \<open>true\<close> and reports one duplicate.
\<close>

theorem rerun_merges_rows:
  "duplicateRows (qualityReport (transformData sampleHost mergingRows [''a''])) = 0
   \<and> duplicateRows (qualityReport
        (transformData sampleHost (data (transformData sampleHost mergingRows [''a''])) [''a''])) = 1"
  by code_simp

text \<open>
  The same on every host whose \<open>Date.parse\<close> rejects the text \<open>"true "\<close>.
\<close>

lemma trim_examples: "trim ''1'' = ''1''" "trim ''true '' = ''true''" "trim ''true'' = ''true''"
  by code_simp+

lemma number_examples: "StringToNumber ''true '' = NaN" "StringToNumber ''1'' = Fin 1"
  by code_simp+

lemma mergingRows_types:
  assumes "isNaN (dateParse env ''true '')"
  shows "detectDataTypes env mergingRows [''a'']
     = [\<lparr>name = ''a'', type = TString, nullable = False, unique = True,
         stats = Some \<lparr>min_stat = None, max_stat = None, avg = None, nullCount = 0, uniqueCount = 2\<rparr>\<rparr>]"
  using assms
  by (simp add: detectDataTypes_def detectColumn_def observed_def mergingRows_def getProp_def present_def
      inferType_def booleanLike_def number_examples Let_def)

lemma mergingRows_data:
  assumes "isNaN (dateParse env ''true '')"
  shows "data (transformData env mergingRows [''a'']) = [[(''a'', JStr ''1'')], [(''a'', JStr ''true'')]]"
proof -
  have ne: "nonEmptyRows mergingRows = mergingRows"
    by (simp add: nonEmptyRows_def mergingRows_def present_def)
  have cl: "cleanData env mergingRows (detectDataTypes env mergingRows [''a''])
            = [[(''a'', JStr ''1'')], [(''a'', JStr ''true'')]]"
    unfolding mergingRows_types[OF assms]
    by (simp add: cleanData_def cleanRow_def cleanValue_def setProp_def
        getProp_def mergingRows_def trim_examples)
  have keys: "JSONstringify env [(''a'', JStr ''1'')] \<noteq> JSONstringify env [(''a'', JStr ''true'')]"
    by (simp add: JSONstringify_def entries_def isArrayIndex_def isDigit_def digitOf_def digitTable_def
        jsonValue_def quoteJSON_def quoteChar_def)
  show ?thesis
    unfolding transformData_data ne cl
    using keys by (simp add: removeDuplicates_def dedupStep_def Let_def)
qed

lemma rerun_merges_rows_on_every_host:
  assumes "isNaN (dateParse env ''true '')"
  shows "duplicateRows (qualityReport
        (transformData env (data (transformData env mergingRows [''a''])) [''a''])) = 1"
proof -
  let ?d = "[[(''a'', JStr ''1'')], [(''a'', JStr ''true'')]]"
  have ne: "nonEmptyRows ?d = ?d"
    by (simp add: nonEmptyRows_def present_def)
  have ty: "detectDataTypes env ?d [''a'']
     = [\<lparr>name = ''a'', type = TBoolean, nullable = False, unique = True,
         stats = Some \<lparr>min_stat = None, max_stat = None, avg = None, nullCount = 0, uniqueCount = 2\<rparr>\<rparr>]"
    by (simp add: detectDataTypes_def detectColumn_def observed_def getProp_def present_def
      inferType_def booleanLike_def Let_def)
  have cl: "cleanData env ?d (detectDataTypes env ?d [''a''])
            = [[(''a'', JBool True)], [(''a'', JBool True)]]"
    unfolding ty
    by (simp add: cleanData_def cleanRow_def cleanValue_def setProp_def getProp_def)
  show ?thesis
    unfolding mergingRows_data[OF assms] transformData_duplicateRows ne cl
    by (simp add: removeDuplicates_def dedupStep_def Let_def)
qed

text \<open>
  C7, amended. The rows that \<open>transformData\<close> returns hold no duplicate: removing
  duplicates from them again drops nothing and counts 0. A second \<open>transformData\<close> on
  them, with the same headers, reports no duplicate row whenever its type inference and
  cleaning leave its non-empty rows as they are.
\<close>

theorem deduplication_idempotent:
  "removeDuplicates env (data (transformData env raw headers)) = (data (transformData env raw headers), 0)
   \<and> (cleanData env (nonEmptyRows (data (transformData env raw headers)))
          (detectDataTypes env (nonEmptyRows (data (transformData env raw headers))) headers)
        = nonEmptyRows (data (transformData env raw headers))
      \<longrightarrow> duplicateRows (qualityReport
            (transformData env (data (transformData env raw headers)) headers)) = 0)"
proof -
  let ?d = "data (transformData env raw headers)"
  have d: "distinct (map (JSONstringify env) ?d)"
    unfolding transformData_data by (rule removeDuplicates_distinct)
  then have "distinct (map (JSONstringify env) (nonEmptyRows ?d))"
    unfolding nonEmptyRows_def by (rule distinct_map_filter)
  then have "removeDuplicates env (nonEmptyRows ?d) = (nonEmptyRows ?d, 0)"
    by (rule removeDuplicates_of_distinct)
  then show ?thesis
    using removeDuplicates_of_distinct[OF d] by (simp add: transformData_duplicateRows)
qed

theorem deduplication_idempotent_witness:
  "cleanData sampleHost (nonEmptyRows (data (transformData sampleHost wordTable [''a''])))
      (detectDataTypes sampleHost (nonEmptyRows (data (transformData sampleHost wordTable [''a'']))) [''a''])
     = nonEmptyRows (data (transformData sampleHost wordTable [''a'']))
   \<and> duplicateRows (qualityReport (transformData sampleHost wordTable [''a''])) = 1
   \<and> duplicateRows (qualityReport
         (transformData sampleHost (data (transformData sampleHost wordTable [''a''])) [''a''])) = 0"
proof -
  have same: "cleanData sampleHost (nonEmptyRows (data (transformData sampleHost wordTable [''a''])))
      (detectDataTypes sampleHost (nonEmptyRows (data (transformData sampleHost wordTable [''a'']))) [''a''])
     = nonEmptyRows (data (transformData sampleHost wordTable [''a'']))"
    by code_simp
  have first: "duplicateRows (qualityReport (transformData sampleHost wordTable [''a''])) = 1"
    by code_simp
  from deduplication_idempotent [of sampleHost wordTable "[''a'']"] same first
  show ?thesis by simp
qed

section \<open>Outliers\<close>

lemma sortedNumbers_outlierRows:
  "sortedNumbers outlierRows ''v'' = [Fin 1, Fin 2, Fin 3, Fin 4, Fin 100]"
  by code_simp

lemma iqrOutliers_example: "iqrOutliers [Fin 1, Fin 2, Fin 3, Fin 4, Fin 100] = [Fin 100]"
  by code_simp

lemma quartiles_example:
  "percentile [Fin 1, Fin 2, Fin 3, Fin 4, Fin 100] 25 = Fin 2"
  "percentile [Fin 1, Fin 2, Fin 3, Fin 4, Fin 100] 75 = Fin 4"
  by code_simp+

lemma sqrt_1522: "39 < sqrt 1522"
  by (rule real_less_rsqrt) simp

lemma zScore_quotient:
  assumes "d \<le> 78"
  shows "\<not> 3 < d / sqrt 1522"
proof -
  have pos: "0 < sqrt 1522" by simp
  have "3 * sqrt 1522 > 78" using sqrt_1522 by linarith
  then have "d < 3 * sqrt 1522" using assms by linarith
  then have "d / sqrt 1522 < 3" using pos by (simp add: pos_divide_less_eq)
  then show ?thesis by simp
qed

lemma zScoreOutliers_example: "zScoreOutliers [Fin 1, Fin 2, Fin 3, Fin 4, Fin 100] = []"
  by (simp add: zScoreOutliers_def Let_def ofNat_def jsub_def jgreater_def zScore_quotient)

text \<open>
  C4. The claim: on the values 1, 2, 3, 4, 100 both the IQR method and the Z-score
  method flag 100. The mean is 22 and the population standard deviation is the square
  root of 1522, above 39, so the score of 100 is below 2, and the Z-score method flags
  no value.
\<close>

theorem z_score_does_not_flag:
  "sortedNumbers outlierRows ''v'' = [Fin 1, Fin 2, Fin 3, Fin 4, Fin 100]
   \<and> zScoreOutliers (sortedNumbers outlierRows ''v'') = []"
  by (simp add: sortedNumbers_outlierRows zScoreOutliers_example)

text \<open>
  C4, amended. On the values 1, 2, 3, 4, 100 the quartiles are 2 and 4, the fences are
  \<open>-1\<close> and 7, and \<open>detectAdvancedOutliers\<close> reports one entry: the IQR method
  flags 100. It reports no Z-score entry.
\<close>

theorem outliers_of_example:
  "percentile (sortedNumbers outlierRows ''v'') 25 = Fin 2
   \<and> percentile (sortedNumbers outlierRows ''v'') 75 = Fin 4
   \<and> iqrOutliers (sortedNumbers outlierRows ''v'') = [Fin 100]
   \<and> detectAdvancedOutliers outlierRows [columnV]
     = [\<lparr>outlierColumn = ''v'', outlierMethod = ''IQR'', count = 1, outlierValues = [Fin 100]\<rparr>]"
  by (simp add: detectAdvancedOutliers_def numericColumns_def columnOutliers_def columnV_def Let_def
      sortedNumbers_outlierRows quartiles_example iqrOutliers_example zScoreOutliers_example)


end
